theory Spec2Isabelle
  imports Main "HOL-Library.Sublist"
begin

section \<open>Python values and their texts\<close>

text \<open>
  The bot reads the decoded JSON answer of the homework API, so the values that flow through
  \<open>homework.py\<close> are the ones \<open>response.json()\<close> can return: \<open>None\<close>, booleans,
  integers, strings, lists and dicts with string keys. (JSON numbers with a fraction are left
  out: the API's dates and ids are integers.) A Python \<open>str\<close> is kept as its UTF-8 bytes;
  the program compares and concatenates strings and tests them for emptiness, which agree
  on the bytes, and takes their \<open>repr\<close>, which reads the bytes character by character. A dict is an association list in insertion order,
  looked up with \<open>map_of\<close>.
\<close>

datatype json =
    JNull
  | JBool bool
  | JInt int
  | JStr string
  | JList "json list"
  | JDict "(string \<times> json) list"

fun truthy :: "json \<Rightarrow> bool" where
  "truthy JNull = False"
| "truthy (JBool b) = b"
| "truthy (JInt i) = (i \<noteq> 0)"
| "truthy (JStr s) = (s \<noteq> [])"
| "truthy (JList xs) = (xs \<noteq> [])"
| "truthy (JDict kvs) = (kvs \<noteq> [])"

fun is_None :: "json \<Rightarrow> bool" where
  "is_None JNull = True"
| "is_None _ = False"

fun py_type :: "json \<Rightarrow> string" where
  "py_type JNull = ''NoneType''"
| "py_type (JBool _) = ''bool''"
| "py_type (JInt _) = ''int''"
| "py_type (JStr _) = ''str''"
| "py_type (JList _) = ''list''"
| "py_type (JDict _) = ''dict''"

definition sq :: char where
  "sq = CHR 0x27"

definition dq :: char where
  "dq = CHR 0x22"

definition bs :: char where
  "bs = CHR 0x5C"

definition py_class :: "json \<Rightarrow> string" where
  \<comment> \<open>the text of \<open>type(x)\<close> in an f-string\<close>
  "py_class v = ''<class '' @ [sq] @ py_type v @ [sq] @ ''>''"

definition digit :: "nat \<Rightarrow> char" where
  "digit n = char_of (48 + n)"

fun str_nat :: "nat \<Rightarrow> string" where
  "str_nat n = (if n < 10 then [digit n] else str_nat (n div 10) @ [digit (n mod 10)])"

declare str_nat.simps [simp del]

definition str_int :: "int \<Rightarrow> string" where
  "str_int i = (if i < 0 then ''-'' @ str_nat (nat (- i)) else str_nat (nat i))"

definition hexdigit :: "nat \<Rightarrow> char" where
  "hexdigit n = (if n < 10 then char_of (48 + n) else char_of (87 + n))"

fun hex :: "nat \<Rightarrow> int \<Rightarrow> string" where
  \<comment> \<open>the last \<open>w\<close> hexadecimal digits of \<open>v\<close>\<close>
  "hex 0 v = []"
| "hex (Suc w) v = hex w (v div 16) @ [hexdigit (nat (v mod 16))]"

text \<open>
  A character of a string is one byte below \<open>0x80\<close> or a lead byte with its one, two
  or three continuation bytes; \<open>utf8_chars\<close> cuts a string into its characters and
  \<open>code_point\<close> reads the number of a character. (A Python \<open>str\<close> always encodes to
  whole characters; on other byte strings the functions are total and mean nothing.)
\<close>

definition utf8_tail :: "char \<Rightarrow> nat" where
  "utf8_tail c =
     (let b = of_char c :: int
      in if b < 0xC0 then 0 else if b < 0xE0 then 1 else if b < 0xF0 then 2 else 3)"

function utf8_chars :: "string \<Rightarrow> string list" where
  "utf8_chars [] = []"
| "utf8_chars (c # cs) = (c # take (utf8_tail c) cs) # utf8_chars (drop (utf8_tail c) cs)"
  by pat_completeness auto
termination
  by (relation "measure length") auto

definition lead_bits :: "char \<Rightarrow> int" where
  "lead_bits c =
     (let b = of_char c :: int
      in if b < 0xC0 then b else if b < 0xE0 then b mod 32 else if b < 0xF0 then b mod 16
         else b mod 8)"

fun code_point :: "string \<Rightarrow> int" where
  "code_point [] = 0"
| "code_point (c # cs) = foldl (\<lambda>a d. a * 64 + (of_char d :: int) mod 64) (lead_bits c) cs"

text \<open>
  \<open>str.isprintable\<close> of a character, as \<open>repr\<close> asks it: every code point is printable
  but the ones of the table, which are the control, format, surrogate, private-use and
  unassigned code points and the separators other than the space. The table is the one of
  Unicode 14.0.0, the database of CPython 3.11, in ascending order; other versions differ
  on code points assigned since.
\<close>

definition unprintable_ranges :: "(int \<times> int) list" where
  "unprintable_ranges =
    [(0x0, 0x1F), (0x7F, 0xA0), (0xAD, 0xAD), (0x378, 0x379), (0x380, 0x383), (0x38B, 0x38B),
     (0x38D, 0x38D), (0x3A2, 0x3A2), (0x530, 0x530), (0x557, 0x558), (0x58B, 0x58C),
     (0x590, 0x590), (0x5C8, 0x5CF), (0x5EB, 0x5EE), (0x5F5, 0x605), (0x61C, 0x61C),
     (0x6DD, 0x6DD), (0x70E, 0x70F), (0x74B, 0x74C), (0x7B2, 0x7BF), (0x7FB, 0x7FC),
     (0x82E, 0x82F), (0x83F, 0x83F), (0x85C, 0x85D), (0x85F, 0x85F), (0x86B, 0x86F),
     (0x88F, 0x897), (0x8E2, 0x8E2), (0x984, 0x984), (0x98D, 0x98E), (0x991, 0x992),
     (0x9A9, 0x9A9), (0x9B1, 0x9B1), (0x9B3, 0x9B5), (0x9BA, 0x9BB), (0x9C5, 0x9C6),
     (0x9C9, 0x9CA), (0x9CF, 0x9D6), (0x9D8, 0x9DB), (0x9DE, 0x9DE), (0x9E4, 0x9E5),
     (0x9FF, 0xA00), (0xA04, 0xA04), (0xA0B, 0xA0E), (0xA11, 0xA12), (0xA29, 0xA29),
     (0xA31, 0xA31), (0xA34, 0xA34), (0xA37, 0xA37), (0xA3A, 0xA3B), (0xA3D, 0xA3D),
     (0xA43, 0xA46), (0xA49, 0xA4A), (0xA4E, 0xA50), (0xA52, 0xA58), (0xA5D, 0xA5D),
     (0xA5F, 0xA65), (0xA77, 0xA80), (0xA84, 0xA84), (0xA8E, 0xA8E), (0xA92, 0xA92),
     (0xAA9, 0xAA9), (0xAB1, 0xAB1), (0xAB4, 0xAB4), (0xABA, 0xABB), (0xAC6, 0xAC6),
     (0xACA, 0xACA), (0xACE, 0xACF), (0xAD1, 0xADF), (0xAE4, 0xAE5), (0xAF2, 0xAF8),
     (0xB00, 0xB00), (0xB04, 0xB04), (0xB0D, 0xB0E), (0xB11, 0xB12), (0xB29, 0xB29),
     (0xB31, 0xB31), (0xB34, 0xB34), (0xB3A, 0xB3B), (0xB45, 0xB46), (0xB49, 0xB4A),
     (0xB4E, 0xB54), (0xB58, 0xB5B), (0xB5E, 0xB5E), (0xB64, 0xB65), (0xB78, 0xB81),
     (0xB84, 0xB84), (0xB8B, 0xB8D), (0xB91, 0xB91), (0xB96, 0xB98), (0xB9B, 0xB9B),
     (0xB9D, 0xB9D), (0xBA0, 0xBA2), (0xBA5, 0xBA7), (0xBAB, 0xBAD), (0xBBA, 0xBBD),
     (0xBC3, 0xBC5), (0xBC9, 0xBC9), (0xBCE, 0xBCF), (0xBD1, 0xBD6), (0xBD8, 0xBE5),
     (0xBFB, 0xBFF), (0xC0D, 0xC0D), (0xC11, 0xC11), (0xC29, 0xC29), (0xC3A, 0xC3B),
     (0xC45, 0xC45), (0xC49, 0xC49), (0xC4E, 0xC54), (0xC57, 0xC57), (0xC5B, 0xC5C),
     (0xC5E, 0xC5F), (0xC64, 0xC65), (0xC70, 0xC76), (0xC8D, 0xC8D), (0xC91, 0xC91),
     (0xCA9, 0xCA9), (0xCB4, 0xCB4), (0xCBA, 0xCBB), (0xCC5, 0xCC5), (0xCC9, 0xCC9),
     (0xCCE, 0xCD4), (0xCD7, 0xCDC), (0xCDF, 0xCDF), (0xCE4, 0xCE5), (0xCF0, 0xCF0),
     (0xCF3, 0xCFF), (0xD0D, 0xD0D), (0xD11, 0xD11), (0xD45, 0xD45), (0xD49, 0xD49),
     (0xD50, 0xD53), (0xD64, 0xD65), (0xD80, 0xD80), (0xD84, 0xD84), (0xD97, 0xD99),
     (0xDB2, 0xDB2), (0xDBC, 0xDBC), (0xDBE, 0xDBF), (0xDC7, 0xDC9), (0xDCB, 0xDCE),
     (0xDD5, 0xDD5), (0xDD7, 0xDD7), (0xDE0, 0xDE5), (0xDF0, 0xDF1), (0xDF5, 0xE00),
     (0xE3B, 0xE3E), (0xE5C, 0xE80), (0xE83, 0xE83), (0xE85, 0xE85), (0xE8B, 0xE8B),
     (0xEA4, 0xEA4), (0xEA6, 0xEA6), (0xEBE, 0xEBF), (0xEC5, 0xEC5), (0xEC7, 0xEC7),
     (0xECE, 0xECF), (0xEDA, 0xEDB), (0xEE0, 0xEFF), (0xF48, 0xF48), (0xF6D, 0xF70),
     (0xF98, 0xF98), (0xFBD, 0xFBD), (0xFCD, 0xFCD), (0xFDB, 0xFFF), (0x10C6, 0x10C6),
     (0x10C8, 0x10CC), (0x10CE, 0x10CF), (0x1249, 0x1249), (0x124E, 0x124F),
     (0x1257, 0x1257), (0x1259, 0x1259), (0x125E, 0x125F), (0x1289, 0x1289),
     (0x128E, 0x128F), (0x12B1, 0x12B1), (0x12B6, 0x12B7), (0x12BF, 0x12BF),
     (0x12C1, 0x12C1), (0x12C6, 0x12C7), (0x12D7, 0x12D7), (0x1311, 0x1311),
     (0x1316, 0x1317), (0x135B, 0x135C), (0x137D, 0x137F), (0x139A, 0x139F),
     (0x13F6, 0x13F7), (0x13FE, 0x13FF), (0x1680, 0x1680), (0x169D, 0x169F),
     (0x16F9, 0x16FF), (0x1716, 0x171E), (0x1737, 0x173F), (0x1754, 0x175F),
     (0x176D, 0x176D), (0x1771, 0x1771), (0x1774, 0x177F), (0x17DE, 0x17DF),
     (0x17EA, 0x17EF), (0x17FA, 0x17FF), (0x180E, 0x180E), (0x181A, 0x181F),
     (0x1879, 0x187F), (0x18AB, 0x18AF), (0x18F6, 0x18FF), (0x191F, 0x191F),
     (0x192C, 0x192F), (0x193C, 0x193F), (0x1941, 0x1943), (0x196E, 0x196F),
     (0x1975, 0x197F), (0x19AC, 0x19AF), (0x19CA, 0x19CF), (0x19DB, 0x19DD),
     (0x1A1C, 0x1A1D), (0x1A5F, 0x1A5F), (0x1A7D, 0x1A7E), (0x1A8A, 0x1A8F),
     (0x1A9A, 0x1A9F), (0x1AAE, 0x1AAF), (0x1ACF, 0x1AFF), (0x1B4D, 0x1B4F),
     (0x1B7F, 0x1B7F), (0x1BF4, 0x1BFB), (0x1C38, 0x1C3A), (0x1C4A, 0x1C4C),
     (0x1C89, 0x1C8F), (0x1CBB, 0x1CBC), (0x1CC8, 0x1CCF), (0x1CFB, 0x1CFF),
     (0x1F16, 0x1F17), (0x1F1E, 0x1F1F), (0x1F46, 0x1F47), (0x1F4E, 0x1F4F),
     (0x1F58, 0x1F58), (0x1F5A, 0x1F5A), (0x1F5C, 0x1F5C), (0x1F5E, 0x1F5E),
     (0x1F7E, 0x1F7F), (0x1FB5, 0x1FB5), (0x1FC5, 0x1FC5), (0x1FD4, 0x1FD5),
     (0x1FDC, 0x1FDC), (0x1FF0, 0x1FF1), (0x1FF5, 0x1FF5), (0x1FFF, 0x200F),
     (0x2028, 0x202F), (0x205F, 0x206F), (0x2072, 0x2073), (0x208F, 0x208F),
     (0x209D, 0x209F), (0x20C1, 0x20CF), (0x20F1, 0x20FF), (0x218C, 0x218F),
     (0x2427, 0x243F), (0x244B, 0x245F), (0x2B74, 0x2B75), (0x2B96, 0x2B96),
     (0x2CF4, 0x2CF8), (0x2D26, 0x2D26), (0x2D28, 0x2D2C), (0x2D2E, 0x2D2F),
     (0x2D68, 0x2D6E), (0x2D71, 0x2D7E), (0x2D97, 0x2D9F), (0x2DA7, 0x2DA7),
     (0x2DAF, 0x2DAF), (0x2DB7, 0x2DB7), (0x2DBF, 0x2DBF), (0x2DC7, 0x2DC7),
     (0x2DCF, 0x2DCF), (0x2DD7, 0x2DD7), (0x2DDF, 0x2DDF), (0x2E5E, 0x2E7F),
     (0x2E9A, 0x2E9A), (0x2EF4, 0x2EFF), (0x2FD6, 0x2FEF), (0x2FFC, 0x3000),
     (0x3040, 0x3040), (0x3097, 0x3098), (0x3100, 0x3104), (0x3130, 0x3130),
     (0x318F, 0x318F), (0x31E4, 0x31EF), (0x321F, 0x321F), (0xA48D, 0xA48F),
     (0xA4C7, 0xA4CF), (0xA62C, 0xA63F), (0xA6F8, 0xA6FF), (0xA7CB, 0xA7CF),
     (0xA7D2, 0xA7D2), (0xA7D4, 0xA7D4), (0xA7DA, 0xA7F1), (0xA82D, 0xA82F),
     (0xA83A, 0xA83F), (0xA878, 0xA87F), (0xA8C6, 0xA8CD), (0xA8DA, 0xA8DF),
     (0xA954, 0xA95E), (0xA97D, 0xA97F), (0xA9CE, 0xA9CE), (0xA9DA, 0xA9DD),
     (0xA9FF, 0xA9FF), (0xAA37, 0xAA3F), (0xAA4E, 0xAA4F), (0xAA5A, 0xAA5B),
     (0xAAC3, 0xAADA), (0xAAF7, 0xAB00), (0xAB07, 0xAB08), (0xAB0F, 0xAB10),
     (0xAB17, 0xAB1F), (0xAB27, 0xAB27), (0xAB2F, 0xAB2F), (0xAB6C, 0xAB6F),
     (0xABEE, 0xABEF), (0xABFA, 0xABFF), (0xD7A4, 0xD7AF), (0xD7C7, 0xD7CA),
     (0xD7FC, 0xF8FF), (0xFA6E, 0xFA6F), (0xFADA, 0xFAFF), (0xFB07, 0xFB12),
     (0xFB18, 0xFB1C), (0xFB37, 0xFB37), (0xFB3D, 0xFB3D), (0xFB3F, 0xFB3F),
     (0xFB42, 0xFB42), (0xFB45, 0xFB45), (0xFBC3, 0xFBD2), (0xFD90, 0xFD91),
     (0xFDC8, 0xFDCE), (0xFDD0, 0xFDEF), (0xFE1A, 0xFE1F), (0xFE53, 0xFE53),
     (0xFE67, 0xFE67), (0xFE6C, 0xFE6F), (0xFE75, 0xFE75), (0xFEFD, 0xFF00),
     (0xFFBF, 0xFFC1), (0xFFC8, 0xFFC9), (0xFFD0, 0xFFD1), (0xFFD8, 0xFFD9),
     (0xFFDD, 0xFFDF), (0xFFE7, 0xFFE7), (0xFFEF, 0xFFFB), (0xFFFE, 0xFFFF),
     (0x1000C, 0x1000C), (0x10027, 0x10027), (0x1003B, 0x1003B), (0x1003E, 0x1003E),
     (0x1004E, 0x1004F), (0x1005E, 0x1007F), (0x100FB, 0x100FF), (0x10103, 0x10106),
     (0x10134, 0x10136), (0x1018F, 0x1018F), (0x1019D, 0x1019F), (0x101A1, 0x101CF),
     (0x101FE, 0x1027F), (0x1029D, 0x1029F), (0x102D1, 0x102DF), (0x102FC, 0x102FF),
     (0x10324, 0x1032C), (0x1034B, 0x1034F), (0x1037B, 0x1037F), (0x1039E, 0x1039E),
     (0x103C4, 0x103C7), (0x103D6, 0x103FF), (0x1049E, 0x1049F), (0x104AA, 0x104AF),
     (0x104D4, 0x104D7), (0x104FC, 0x104FF), (0x10528, 0x1052F), (0x10564, 0x1056E),
     (0x1057B, 0x1057B), (0x1058B, 0x1058B), (0x10593, 0x10593), (0x10596, 0x10596),
     (0x105A2, 0x105A2), (0x105B2, 0x105B2), (0x105BA, 0x105BA), (0x105BD, 0x105FF),
     (0x10737, 0x1073F), (0x10756, 0x1075F), (0x10768, 0x1077F), (0x10786, 0x10786),
     (0x107B1, 0x107B1), (0x107BB, 0x107FF), (0x10806, 0x10807), (0x10809, 0x10809),
     (0x10836, 0x10836), (0x10839, 0x1083B), (0x1083D, 0x1083E), (0x10856, 0x10856),
     (0x1089F, 0x108A6), (0x108B0, 0x108DF), (0x108F3, 0x108F3), (0x108F6, 0x108FA),
     (0x1091C, 0x1091E), (0x1093A, 0x1093E), (0x10940, 0x1097F), (0x109B8, 0x109BB),
     (0x109D0, 0x109D1), (0x10A04, 0x10A04), (0x10A07, 0x10A0B), (0x10A14, 0x10A14),
     (0x10A18, 0x10A18), (0x10A36, 0x10A37), (0x10A3B, 0x10A3E), (0x10A49, 0x10A4F),
     (0x10A59, 0x10A5F), (0x10AA0, 0x10ABF), (0x10AE7, 0x10AEA), (0x10AF7, 0x10AFF),
     (0x10B36, 0x10B38), (0x10B56, 0x10B57), (0x10B73, 0x10B77), (0x10B92, 0x10B98),
     (0x10B9D, 0x10BA8), (0x10BB0, 0x10BFF), (0x10C49, 0x10C7F), (0x10CB3, 0x10CBF),
     (0x10CF3, 0x10CF9), (0x10D28, 0x10D2F), (0x10D3A, 0x10E5F), (0x10E7F, 0x10E7F),
     (0x10EAA, 0x10EAA), (0x10EAE, 0x10EAF), (0x10EB2, 0x10EFF), (0x10F28, 0x10F2F),
     (0x10F5A, 0x10F6F), (0x10F8A, 0x10FAF), (0x10FCC, 0x10FDF), (0x10FF7, 0x10FFF),
     (0x1104E, 0x11051), (0x11076, 0x1107E), (0x110BD, 0x110BD), (0x110C3, 0x110CF),
     (0x110E9, 0x110EF), (0x110FA, 0x110FF), (0x11135, 0x11135), (0x11148, 0x1114F),
     (0x11177, 0x1117F), (0x111E0, 0x111E0), (0x111F5, 0x111FF), (0x11212, 0x11212),
     (0x1123F, 0x1127F), (0x11287, 0x11287), (0x11289, 0x11289), (0x1128E, 0x1128E),
     (0x1129E, 0x1129E), (0x112AA, 0x112AF), (0x112EB, 0x112EF), (0x112FA, 0x112FF),
     (0x11304, 0x11304), (0x1130D, 0x1130E), (0x11311, 0x11312), (0x11329, 0x11329),
     (0x11331, 0x11331), (0x11334, 0x11334), (0x1133A, 0x1133A), (0x11345, 0x11346),
     (0x11349, 0x1134A), (0x1134E, 0x1134F), (0x11351, 0x11356), (0x11358, 0x1135C),
     (0x11364, 0x11365), (0x1136D, 0x1136F), (0x11375, 0x113FF), (0x1145C, 0x1145C),
     (0x11462, 0x1147F), (0x114C8, 0x114CF), (0x114DA, 0x1157F), (0x115B6, 0x115B7),
     (0x115DE, 0x115FF), (0x11645, 0x1164F), (0x1165A, 0x1165F), (0x1166D, 0x1167F),
     (0x116BA, 0x116BF), (0x116CA, 0x116FF), (0x1171B, 0x1171C), (0x1172C, 0x1172F),
     (0x11747, 0x117FF), (0x1183C, 0x1189F), (0x118F3, 0x118FE), (0x11907, 0x11908),
     (0x1190A, 0x1190B), (0x11914, 0x11914), (0x11917, 0x11917), (0x11936, 0x11936),
     (0x11939, 0x1193A), (0x11947, 0x1194F), (0x1195A, 0x1199F), (0x119A8, 0x119A9),
     (0x119D8, 0x119D9), (0x119E5, 0x119FF), (0x11A48, 0x11A4F), (0x11AA3, 0x11AAF),
     (0x11AF9, 0x11BFF), (0x11C09, 0x11C09), (0x11C37, 0x11C37), (0x11C46, 0x11C4F),
     (0x11C6D, 0x11C6F), (0x11C90, 0x11C91), (0x11CA8, 0x11CA8), (0x11CB7, 0x11CFF),
     (0x11D07, 0x11D07), (0x11D0A, 0x11D0A), (0x11D37, 0x11D39), (0x11D3B, 0x11D3B),
     (0x11D3E, 0x11D3E), (0x11D48, 0x11D4F), (0x11D5A, 0x11D5F), (0x11D66, 0x11D66),
     (0x11D69, 0x11D69), (0x11D8F, 0x11D8F), (0x11D92, 0x11D92), (0x11D99, 0x11D9F),
     (0x11DAA, 0x11EDF), (0x11EF9, 0x11FAF), (0x11FB1, 0x11FBF), (0x11FF2, 0x11FFE),
     (0x1239A, 0x123FF), (0x1246F, 0x1246F), (0x12475, 0x1247F), (0x12544, 0x12F8F),
     (0x12FF3, 0x12FFF), (0x1342F, 0x143FF), (0x14647, 0x167FF), (0x16A39, 0x16A3F),
     (0x16A5F, 0x16A5F), (0x16A6A, 0x16A6D), (0x16ABF, 0x16ABF), (0x16ACA, 0x16ACF),
     (0x16AEE, 0x16AEF), (0x16AF6, 0x16AFF), (0x16B46, 0x16B4F), (0x16B5A, 0x16B5A),
     (0x16B62, 0x16B62), (0x16B78, 0x16B7C), (0x16B90, 0x16E3F), (0x16E9B, 0x16EFF),
     (0x16F4B, 0x16F4E), (0x16F88, 0x16F8E), (0x16FA0, 0x16FDF), (0x16FE5, 0x16FEF),
     (0x16FF2, 0x16FFF), (0x187F8, 0x187FF), (0x18CD6, 0x18CFF), (0x18D09, 0x1AFEF),
     (0x1AFF4, 0x1AFF4), (0x1AFFC, 0x1AFFC), (0x1AFFF, 0x1AFFF), (0x1B123, 0x1B14F),
     (0x1B153, 0x1B163), (0x1B168, 0x1B16F), (0x1B2FC, 0x1BBFF), (0x1BC6B, 0x1BC6F),
     (0x1BC7D, 0x1BC7F), (0x1BC89, 0x1BC8F), (0x1BC9A, 0x1BC9B), (0x1BCA0, 0x1CEFF),
     (0x1CF2E, 0x1CF2F), (0x1CF47, 0x1CF4F), (0x1CFC4, 0x1CFFF), (0x1D0F6, 0x1D0FF),
     (0x1D127, 0x1D128), (0x1D173, 0x1D17A), (0x1D1EB, 0x1D1FF), (0x1D246, 0x1D2DF),
     (0x1D2F4, 0x1D2FF), (0x1D357, 0x1D35F), (0x1D379, 0x1D3FF), (0x1D455, 0x1D455),
     (0x1D49D, 0x1D49D), (0x1D4A0, 0x1D4A1), (0x1D4A3, 0x1D4A4), (0x1D4A7, 0x1D4A8),
     (0x1D4AD, 0x1D4AD), (0x1D4BA, 0x1D4BA), (0x1D4BC, 0x1D4BC), (0x1D4C4, 0x1D4C4),
     (0x1D506, 0x1D506), (0x1D50B, 0x1D50C), (0x1D515, 0x1D515), (0x1D51D, 0x1D51D),
     (0x1D53A, 0x1D53A), (0x1D53F, 0x1D53F), (0x1D545, 0x1D545), (0x1D547, 0x1D549),
     (0x1D551, 0x1D551), (0x1D6A6, 0x1D6A7), (0x1D7CC, 0x1D7CD), (0x1DA8C, 0x1DA9A),
     (0x1DAA0, 0x1DAA0), (0x1DAB0, 0x1DEFF), (0x1DF1F, 0x1DFFF), (0x1E007, 0x1E007),
     (0x1E019, 0x1E01A), (0x1E022, 0x1E022), (0x1E025, 0x1E025), (0x1E02B, 0x1E0FF),
     (0x1E12D, 0x1E12F), (0x1E13E, 0x1E13F), (0x1E14A, 0x1E14D), (0x1E150, 0x1E28F),
     (0x1E2AF, 0x1E2BF), (0x1E2FA, 0x1E2FE), (0x1E300, 0x1E7DF), (0x1E7E7, 0x1E7E7),
     (0x1E7EC, 0x1E7EC), (0x1E7EF, 0x1E7EF), (0x1E7FF, 0x1E7FF), (0x1E8C5, 0x1E8C6),
     (0x1E8D7, 0x1E8FF), (0x1E94C, 0x1E94F), (0x1E95A, 0x1E95D), (0x1E960, 0x1EC70),
     (0x1ECB5, 0x1ED00), (0x1ED3E, 0x1EDFF), (0x1EE04, 0x1EE04), (0x1EE20, 0x1EE20),
     (0x1EE23, 0x1EE23), (0x1EE25, 0x1EE26), (0x1EE28, 0x1EE28), (0x1EE33, 0x1EE33),
     (0x1EE38, 0x1EE38), (0x1EE3A, 0x1EE3A), (0x1EE3C, 0x1EE41), (0x1EE43, 0x1EE46),
     (0x1EE48, 0x1EE48), (0x1EE4A, 0x1EE4A), (0x1EE4C, 0x1EE4C), (0x1EE50, 0x1EE50),
     (0x1EE53, 0x1EE53), (0x1EE55, 0x1EE56), (0x1EE58, 0x1EE58), (0x1EE5A, 0x1EE5A),
     (0x1EE5C, 0x1EE5C), (0x1EE5E, 0x1EE5E), (0x1EE60, 0x1EE60), (0x1EE63, 0x1EE63),
     (0x1EE65, 0x1EE66), (0x1EE6B, 0x1EE6B), (0x1EE73, 0x1EE73), (0x1EE78, 0x1EE78),
     (0x1EE7D, 0x1EE7D), (0x1EE7F, 0x1EE7F), (0x1EE8A, 0x1EE8A), (0x1EE9C, 0x1EEA0),
     (0x1EEA4, 0x1EEA4), (0x1EEAA, 0x1EEAA), (0x1EEBC, 0x1EEEF), (0x1EEF2, 0x1EFFF),
     (0x1F02C, 0x1F02F), (0x1F094, 0x1F09F), (0x1F0AF, 0x1F0B0), (0x1F0C0, 0x1F0C0),
     (0x1F0D0, 0x1F0D0), (0x1F0F6, 0x1F0FF), (0x1F1AE, 0x1F1E5), (0x1F203, 0x1F20F),
     (0x1F23C, 0x1F23F), (0x1F249, 0x1F24F), (0x1F252, 0x1F25F), (0x1F266, 0x1F2FF),
     (0x1F6D8, 0x1F6DC), (0x1F6ED, 0x1F6EF), (0x1F6FD, 0x1F6FF), (0x1F774, 0x1F77F),
     (0x1F7D9, 0x1F7DF), (0x1F7EC, 0x1F7EF), (0x1F7F1, 0x1F7FF), (0x1F80C, 0x1F80F),
     (0x1F848, 0x1F84F), (0x1F85A, 0x1F85F), (0x1F888, 0x1F88F), (0x1F8AE, 0x1F8AF),
     (0x1F8B2, 0x1F8FF), (0x1FA54, 0x1FA5F), (0x1FA6E, 0x1FA6F), (0x1FA75, 0x1FA77),
     (0x1FA7D, 0x1FA7F), (0x1FA87, 0x1FA8F), (0x1FAAD, 0x1FAAF), (0x1FABB, 0x1FABF),
     (0x1FAC6, 0x1FACF), (0x1FADA, 0x1FADF), (0x1FAE8, 0x1FAEF), (0x1FAF7, 0x1FAFF),
     (0x1FB93, 0x1FB93), (0x1FBCB, 0x1FBEF), (0x1FBFA, 0x1FFFF), (0x2A6E0, 0x2A6FF),
     (0x2B739, 0x2B73F), (0x2B81E, 0x2B81F), (0x2CEA2, 0x2CEAF), (0x2EBE1, 0x2F7FF),
     (0x2FA1E, 0x2FFFF), (0x3134B, 0xE00FF), (0xE01F0, 0x10FFFF)]"

fun in_ranges :: "int \<Rightarrow> (int \<times> int) list \<Rightarrow> bool" where
  "in_ranges n [] = False"
| "in_ranges n ((lo, hi) # rs) =
     (if n < lo then False else if n \<le> hi then True else in_ranges n rs)"

definition isprintable :: "int \<Rightarrow> bool" where
  "isprintable n = (\<not> in_ranges n unprintable_ranges)"

text \<open>
  \<open>repr\<close> of a string: the quote is the single quote unless the string holds a single and no
  double quote. Character by character, the quote and the backslash get a backslash; tab,
  newline and carriage return their letter; the other control characters of ASCII a
  two-digit hexadecimal escape; the other characters of ASCII stay; a character beyond
  ASCII stays when it is printable and becomes a hexadecimal escape of two, four or eight
  digits when it is not.
\<close>

definition py_quote :: "string \<Rightarrow> char" where
  "py_quote s = (if sq \<in> set s \<and> dq \<notin> set s then dq else sq)"

definition py_escape_char :: "char \<Rightarrow> string \<Rightarrow> string" where
  "py_escape_char q ch =
     (let n = code_point ch
      in if ch = [q] \<or> ch = [bs] then bs # ch
         else if n = 0x09 then [bs, CHR ''t'']
         else if n = 0x0A then [bs, CHR ''n'']
         else if n = 0x0D then [bs, CHR ''r'']
         else if n < 0x20 \<or> n = 0x7F then [bs, CHR ''x''] @ hex 2 n
         else if n < 0x7F then ch
         else if isprintable n then ch
         else if n \<le> 0xFF then [bs, CHR ''x''] @ hex 2 n
         else if n \<le> 0xFFFF then [bs, CHR ''u''] @ hex 4 n
         else [bs, CHR ''U''] @ hex 8 n)"

definition py_escape :: "char \<Rightarrow> string \<Rightarrow> string" where
  "py_escape q s = concat (map (py_escape_char q) (utf8_chars s))"

definition repr_str :: "string \<Rightarrow> string" where
  "repr_str s = (let q = py_quote s in [q] @ py_escape q s @ [q])"

fun join :: "string \<Rightarrow> string list \<Rightarrow> string" where
  "join sep [] = []"
| "join sep [x] = x"
| "join sep (x # y # ys) = x @ sep @ join sep (y # ys)"

fun py_repr :: "json \<Rightarrow> string" where
  "py_repr JNull = ''None''"
| "py_repr (JBool b) = (if b then ''True'' else ''False'')"
| "py_repr (JInt i) = str_int i"
| "py_repr (JStr s) = repr_str s"
| "py_repr (JList xs) = ''['' @ join '', '' (map py_repr xs) @ '']''"
| "py_repr (JDict kvs) =
     ''{'' @ join '', '' (map (\<lambda>(k, v). repr_str k @ '': '' @ py_repr v) kvs) @ ''}''"

fun py_str :: "json \<Rightarrow> string" where
  "py_str (JStr s) = s"
| "py_str v = py_repr v"

definition opt_str :: "string option \<Rightarrow> string" where
  \<comment> \<open>\<open>str\<close> of what \<open>os.getenv\<close> returned\<close>
  "opt_str v = (case v of None \<Rightarrow> ''None'' | Some s \<Rightarrow> s)"

definition dict_get :: "(string \<times> json) list \<Rightarrow> string \<Rightarrow> json \<Rightarrow> json" where
  \<comment> \<open>\<open>d.get(key, default)\<close>\<close>
  "dict_get d k dflt = (case map_of d k of None \<Rightarrow> dflt | Some v \<Rightarrow> v)"

section \<open>Exceptions\<close>

text \<open>
  The classes of \<open>exceptions.py\<close> and the built-in ones \<open>homework.py\<close> raises. An exception
  raised with one string is \<open>Raised\<close>; \<open>WrongResponseCode(message, error)\<close>, which
  \<open>get_api_answer\<close> raises around any failure, is \<open>Rewrapped\<close>; an exception out of
  \<open>requests\<close> or the JSON decoder is \<open>Foreign\<close>, with its \<open>repr\<close> and its \<open>str\<close>.
\<close>

datatype exc_class =
    WrongResponseCode
  | NotForSend
  | RequestExceptionError
  | UnknownStatusError
  | TypeError
  | KeyError
  | AttributeError

datatype exn =
    Raised exc_class string
  | Rewrapped string exn
  | Foreign string string

fun class_name :: "exc_class \<Rightarrow> string" where
  "class_name WrongResponseCode = ''WrongResponseCode''"
| "class_name NotForSend = ''NotForSend''"
| "class_name RequestExceptionError = ''RequestExceptionError''"
| "class_name UnknownStatusError = ''UnknownStatusError''"
| "class_name TypeError = ''TypeError''"
| "class_name KeyError = ''KeyError''"
| "class_name AttributeError = ''AttributeError''"

fun exc_class_of :: "exn \<Rightarrow> exc_class option" where
  "exc_class_of (Raised c _) = Some c"
| "exc_class_of (Rewrapped _ _) = Some WrongResponseCode"
| "exc_class_of (Foreign _ _) = None"

fun repr_exn :: "exn \<Rightarrow> string" where
  "repr_exn (Raised c s) = class_name c @ ''('' @ repr_str s @ '')''"
| "repr_exn (Rewrapped m e) =
     class_name WrongResponseCode @ ''('' @ repr_str m @ '', '' @ repr_exn e @ '')''"
| "repr_exn (Foreign r _) = r"

text \<open>
  \<open>str\<close> of an exception: the argument when there is one, the \<open>repr\<close> of the tuple of
  arguments when there are two. \<open>KeyError\<close> shows the \<open>repr\<close> of its argument, and
  \<open>UnknownStatusError.__str__\<close> is the one of \<open>exceptions.py\<close>.
\<close>

fun str_exn :: "exn \<Rightarrow> string" where
  "str_exn (Raised KeyError s) = repr_str s"
| "str_exn (Raised UnknownStatusError s) = class_name UnknownStatusError @ '' --> '' @ s"
| "str_exn (Raised c s) = s"
| "str_exn (Rewrapped m e) = ''('' @ repr_str m @ '', '' @ repr_exn e @ '')''"
| "str_exn (Foreign _ s) = s"

definition no_attribute :: "json \<Rightarrow> string \<Rightarrow> exn" where
  \<comment> \<open>calling a method a value does not have\<close>
  "no_attribute v name =
     Raised AttributeError
       ([sq] @ py_type v @ [sq] @ '' object has no attribute '' @ [sq] @ name @ [sq])"

section \<open>Logging\<close>

text \<open>
  A call of \<open>logging.info\<close> and the like goes to the root logger, a call on \<open>logger\<close> to the
  module's own. The model records every call, in order.
\<close>

datatype logger = RootLogger | ModuleLogger

datatype level = DEBUG | INFO | ERROR | CRITICAL

datatype log_entry = Log logger level string

section \<open>Texts of \<open>homework.py\<close>\<close>

text \<open>
  The Russian texts of the program, as UTF-8 bytes, each with a translation.
\<close>

definition verdict_approved :: string where
  \<comment> \<open>The work is checked: the reviewer liked everything. Hooray!\<close>
  "verdict_approved =
     [CHR 0xD0, CHR 0xA0, CHR 0xD0, CHR 0xB0, CHR 0xD0, CHR 0xB1, CHR 0xD0, CHR 0xBE,
       CHR 0xD1, CHR 0x82, CHR 0xD0, CHR 0xB0] @ '' '' @ [CHR 0xD0, CHR 0xBF, CHR 0xD1,
       CHR 0x80, CHR 0xD0, CHR 0xBE, CHR 0xD0, CHR 0xB2, CHR 0xD0, CHR 0xB5, CHR 0xD1,
       CHR 0x80, CHR 0xD0, CHR 0xB5, CHR 0xD0, CHR 0xBD, CHR 0xD0, CHR 0xB0] @ '': '' @
       [CHR 0xD1, CHR 0x80, CHR 0xD0, CHR 0xB5, CHR 0xD0, CHR 0xB2, CHR 0xD1, CHR 0x8C,
       CHR 0xD1, CHR 0x8E, CHR 0xD0, CHR 0xB5, CHR 0xD1, CHR 0x80, CHR 0xD1, CHR 0x83] @
       '' '' @ [CHR 0xD0, CHR 0xB2, CHR 0xD1, CHR 0x81, CHR 0xD1, CHR 0x91] @ '' '' @
       [CHR 0xD0, CHR 0xBF, CHR 0xD0, CHR 0xBE, CHR 0xD0, CHR 0xBD, CHR 0xD1, CHR 0x80,
       CHR 0xD0, CHR 0xB0, CHR 0xD0, CHR 0xB2, CHR 0xD0, CHR 0xB8, CHR 0xD0, CHR 0xBB,
       CHR 0xD0, CHR 0xBE, CHR 0xD1, CHR 0x81, CHR 0xD1, CHR 0x8C] @ ''. '' @ [CHR 0xD0,
       CHR 0xA3, CHR 0xD1, CHR 0x80, CHR 0xD0, CHR 0xB0] @ ''!''"

definition verdict_reviewing :: string where
  \<comment> \<open>The work was taken for checking by the reviewer.\<close>
  "verdict_reviewing =
     [CHR 0xD0, CHR 0xA0, CHR 0xD0, CHR 0xB0, CHR 0xD0, CHR 0xB1, CHR 0xD0, CHR 0xBE,
       CHR 0xD1, CHR 0x82, CHR 0xD0, CHR 0xB0] @ '' '' @ [CHR 0xD0, CHR 0xB2, CHR 0xD0,
       CHR 0xB7, CHR 0xD1, CHR 0x8F, CHR 0xD1, CHR 0x82, CHR 0xD0, CHR 0xB0] @ '' '' @
       [CHR 0xD0, CHR 0xBD, CHR 0xD0, CHR 0xB0] @ '' '' @ [CHR 0xD0, CHR 0xBF, CHR 0xD1,
       CHR 0x80, CHR 0xD0, CHR 0xBE, CHR 0xD0, CHR 0xB2, CHR 0xD0, CHR 0xB5, CHR 0xD1,
       CHR 0x80, CHR 0xD0, CHR 0xBA, CHR 0xD1, CHR 0x83] @ '' '' @ [CHR 0xD1, CHR 0x80,
       CHR 0xD0, CHR 0xB5, CHR 0xD0, CHR 0xB2, CHR 0xD1, CHR 0x8C, CHR 0xD1, CHR 0x8E,
       CHR 0xD0, CHR 0xB5, CHR 0xD1, CHR 0x80, CHR 0xD0, CHR 0xBE, CHR 0xD0, CHR 0xBC] @
       ''.''"

definition verdict_rejected :: string where
  \<comment> \<open>The work is checked: the reviewer has remarks.\<close>
  "verdict_rejected =
     [CHR 0xD0, CHR 0xA0, CHR 0xD0, CHR 0xB0, CHR 0xD0, CHR 0xB1, CHR 0xD0, CHR 0xBE,
       CHR 0xD1, CHR 0x82, CHR 0xD0, CHR 0xB0] @ '' '' @ [CHR 0xD0, CHR 0xBF, CHR 0xD1,
       CHR 0x80, CHR 0xD0, CHR 0xBE, CHR 0xD0, CHR 0xB2, CHR 0xD0, CHR 0xB5, CHR 0xD1,
       CHR 0x80, CHR 0xD0, CHR 0xB5, CHR 0xD0, CHR 0xBD, CHR 0xD0, CHR 0xB0] @ '': '' @
       [CHR 0xD1, CHR 0x83] @ '' '' @ [CHR 0xD1, CHR 0x80, CHR 0xD0, CHR 0xB5, CHR 0xD0,
       CHR 0xB2, CHR 0xD1, CHR 0x8C, CHR 0xD1, CHR 0x8E, CHR 0xD0, CHR 0xB5, CHR 0xD1,
       CHR 0x80, CHR 0xD0, CHR 0xB0] @ '' '' @ [CHR 0xD0, CHR 0xB5, CHR 0xD1, CHR 0x81,
       CHR 0xD1, CHR 0x82, CHR 0xD1, CHR 0x8C] @ '' '' @ [CHR 0xD0, CHR 0xB7, CHR 0xD0,
       CHR 0xB0, CHR 0xD0, CHR 0xBC, CHR 0xD0, CHR 0xB5, CHR 0xD1, CHR 0x87, CHR 0xD0,
       CHR 0xB0, CHR 0xD0, CHR 0xBD, CHR 0xD0, CHR 0xB8, CHR 0xD1, CHR 0x8F] @ ''.''"

definition txt_check_tokens :: string where
  \<comment> \<open>Checking that all tokens are there\<close>
  "txt_check_tokens =
     [CHR 0xD0, CHR 0x9F, CHR 0xD1, CHR 0x80, CHR 0xD0, CHR 0xBE, CHR 0xD0, CHR 0xB2,
       CHR 0xD0, CHR 0xB5, CHR 0xD1, CHR 0x80, CHR 0xD0, CHR 0xBA, CHR 0xD0, CHR 0xB0] @
       '' '' @ [CHR 0xD0, CHR 0xBD, CHR 0xD0, CHR 0xB0, CHR 0xD0, CHR 0xBB, CHR 0xD0,
       CHR 0xB8, CHR 0xD1, CHR 0x87, CHR 0xD0, CHR 0xB8, CHR 0xD1, CHR 0x8F] @ '' '' @
       [CHR 0xD0, CHR 0xB2, CHR 0xD1, CHR 0x81, CHR 0xD0, CHR 0xB5, CHR 0xD1, CHR 0x85] @
       '' '' @ [CHR 0xD1, CHR 0x82, CHR 0xD0, CHR 0xBE, CHR 0xD0, CHR 0xBA, CHR 0xD0,
       CHR 0xB5, CHR 0xD0, CHR 0xBD, CHR 0xD0, CHR 0xBE, CHR 0xD0, CHR 0xB2]"

definition txt_request_start :: string where
  \<comment> \<open>Start of the request to the API. Request: \<close>
  "txt_request_start =
     [CHR 0xD0, CHR 0x9D, CHR 0xD0, CHR 0xB0, CHR 0xD1, CHR 0x87, CHR 0xD0, CHR 0xB0,
       CHR 0xD0, CHR 0xBB, CHR 0xD0, CHR 0xBE] @ '' '' @ [CHR 0xD0, CHR 0xB7, CHR 0xD0,
       CHR 0xB0, CHR 0xD0, CHR 0xBF, CHR 0xD1, CHR 0x80, CHR 0xD0, CHR 0xBE, CHR 0xD1,
       CHR 0x81, CHR 0xD0, CHR 0xB0] @ '' '' @ [CHR 0xD0, CHR 0xBA] @ '' API. '' @
       [CHR 0xD0, CHR 0x97, CHR 0xD0, CHR 0xB0, CHR 0xD0, CHR 0xBF, CHR 0xD1, CHR 0x80,
       CHR 0xD0, CHR 0xBE, CHR 0xD1, CHR 0x81] @ '': ''"

definition txt_answer_not_200 :: string where
  \<comment> \<open>The API answer does not return 200. \<close>
  "txt_answer_not_200 =
     [CHR 0xD0, CHR 0x9E, CHR 0xD1, CHR 0x82, CHR 0xD0, CHR 0xB2, CHR 0xD0, CHR 0xB5,
       CHR 0xD1, CHR 0x82] @ '' API '' @ [CHR 0xD0, CHR 0xBD, CHR 0xD0, CHR 0xB5] @ '' '' @
       [CHR 0xD0, CHR 0xB2, CHR 0xD0, CHR 0xBE, CHR 0xD0, CHR 0xB7, CHR 0xD0, CHR 0xB2,
       CHR 0xD1, CHR 0x80, CHR 0xD0, CHR 0xB0, CHR 0xD1, CHR 0x89, CHR 0xD0, CHR 0xB0,
       CHR 0xD0, CHR 0xB5, CHR 0xD1, CHR 0x82] @ '' 200. ''"

definition txt_answer_code :: string where
  \<comment> \<open>Answer code: \<close>
  "txt_answer_code =
     [CHR 0xD0, CHR 0x9A, CHR 0xD0, CHR 0xBE, CHR 0xD0, CHR 0xB4] @ '' '' @ [CHR 0xD0,
       CHR 0xBE, CHR 0xD1, CHR 0x82, CHR 0xD0, CHR 0xB2, CHR 0xD0, CHR 0xB5, CHR 0xD1,
       CHR 0x82, CHR 0xD0, CHR 0xB0] @ '': ''"

definition txt_answer_reason :: string where
  \<comment> \<open>Reason: \<close>
  "txt_answer_reason =
     [CHR 0xD0, CHR 0x9F, CHR 0xD1, CHR 0x80, CHR 0xD0, CHR 0xB8, CHR 0xD1, CHR 0x87,
       CHR 0xD0, CHR 0xB8, CHR 0xD0, CHR 0xBD, CHR 0xD0, CHR 0xB0] @ '': ''"

definition txt_answer_text :: string where
  \<comment> \<open>Text: \<close>
  "txt_answer_text =
     [CHR 0xD0, CHR 0xA2, CHR 0xD0, CHR 0xB5, CHR 0xD0, CHR 0xBA, CHR 0xD1, CHR 0x81,
       CHR 0xD1, CHR 0x82] @ '': ''"

definition txt_api_not_200 :: string where
  \<comment> \<open>The API does not return 200. Request: \<close>
  "txt_api_not_200 =
     ''API '' @ [CHR 0xD0, CHR 0xBD, CHR 0xD0, CHR 0xB5] @ '' '' @ [CHR 0xD0, CHR 0xB2,
       CHR 0xD0, CHR 0xBE, CHR 0xD0, CHR 0xB7, CHR 0xD0, CHR 0xB2, CHR 0xD1, CHR 0x80,
       CHR 0xD0, CHR 0xB0, CHR 0xD1, CHR 0x89, CHR 0xD0, CHR 0xB0, CHR 0xD0, CHR 0xB5,
       CHR 0xD1, CHR 0x82] @ '' 200. '' @ [CHR 0xD0, CHR 0x97, CHR 0xD0, CHR 0xB0,
       CHR 0xD0, CHR 0xBF, CHR 0xD1, CHR 0x80, CHR 0xD0, CHR 0xBE, CHR 0xD1, CHR 0x81] @
       '': ''"

definition txt_response_type_ok :: string where
  \<comment> \<open>The data type of the server answer is right: \<close>
  "txt_response_type_ok =
     [CHR 0xD0, CHR 0xA2, CHR 0xD0, CHR 0xB8, CHR 0xD0, CHR 0xBF] @ '' '' @ [CHR 0xD0,
       CHR 0xB4, CHR 0xD0, CHR 0xB0, CHR 0xD0, CHR 0xBD, CHR 0xD0, CHR 0xBD, CHR 0xD1,
       CHR 0x8B, CHR 0xD1, CHR 0x85] @ '' '' @ [CHR 0xD0, CHR 0xBE, CHR 0xD1, CHR 0x82,
       CHR 0xD0, CHR 0xB2, CHR 0xD0, CHR 0xB5, CHR 0xD1, CHR 0x82, CHR 0xD0, CHR 0xB0] @
       '' '' @ [CHR 0xD1, CHR 0x81, CHR 0xD0, CHR 0xB5, CHR 0xD1, CHR 0x80, CHR 0xD0,
       CHR 0xB2, CHR 0xD0, CHR 0xB5, CHR 0xD1, CHR 0x80, CHR 0xD0, CHR 0xB0] @ '' '' @
       [CHR 0xD0, CHR 0xBF, CHR 0xD1, CHR 0x80, CHR 0xD0, CHR 0xB0, CHR 0xD0, CHR 0xB2,
       CHR 0xD0, CHR 0xB8, CHR 0xD0, CHR 0xBB, CHR 0xD1, CHR 0x8C, CHR 0xD0, CHR 0xBD,
       CHR 0xD1, CHR 0x8B, CHR 0xD0, CHR 0xB9] @ '': ''"

definition txt_response_type_bad :: string where
  \<comment> \<open>Wrong data type of the server answer: \<close>
  "txt_response_type_bad =
     [CHR 0xD0, CHR 0x9D, CHR 0xD0, CHR 0xB5, CHR 0xD0, CHR 0xBF, CHR 0xD1, CHR 0x80,
       CHR 0xD0, CHR 0xB0, CHR 0xD0, CHR 0xB2, CHR 0xD0, CHR 0xB8, CHR 0xD0, CHR 0xBB,
       CHR 0xD1, CHR 0x8C, CHR 0xD0, CHR 0xBD, CHR 0xD1, CHR 0x8B, CHR 0xD0, CHR 0xB9] @
       '' '' @ [CHR 0xD1, CHR 0x82, CHR 0xD0, CHR 0xB8, CHR 0xD0, CHR 0xBF] @ '' '' @
       [CHR 0xD0, CHR 0xB4, CHR 0xD0, CHR 0xB0, CHR 0xD0, CHR 0xBD, CHR 0xD0, CHR 0xBD,
       CHR 0xD1, CHR 0x8B, CHR 0xD1, CHR 0x85] @ '' '' @ [CHR 0xD0, CHR 0xBE, CHR 0xD1,
       CHR 0x82, CHR 0xD0, CHR 0xB2, CHR 0xD0, CHR 0xB5, CHR 0xD1, CHR 0x82, CHR 0xD0,
       CHR 0xB0] @ '' '' @ [CHR 0xD1, CHR 0x81, CHR 0xD0, CHR 0xB5, CHR 0xD1, CHR 0x80,
       CHR 0xD0, CHR 0xB2, CHR 0xD0, CHR 0xB5, CHR 0xD1, CHR 0x80, CHR 0xD0, CHR 0xB0] @
       '': ''"

definition txt_no_homeworks_key :: string where
  \<comment> \<open>The server answer has no key ''homeworks'': \<close>
  "txt_no_homeworks_key =
     [CHR 0xD0, CHR 0x9E, CHR 0xD1, CHR 0x82, CHR 0xD0, CHR 0xB2, CHR 0xD0, CHR 0xB5,
       CHR 0xD1, CHR 0x82] @ '' '' @ [CHR 0xD1, CHR 0x81, CHR 0xD0, CHR 0xB5, CHR 0xD1,
       CHR 0x80, CHR 0xD0, CHR 0xB2, CHR 0xD0, CHR 0xB5, CHR 0xD1, CHR 0x80, CHR 0xD0,
       CHR 0xB0] @ '' '' @ [CHR 0xD0, CHR 0xBD, CHR 0xD0, CHR 0xB5] @ '' '' @ [CHR 0xD1,
       CHR 0x81, CHR 0xD0, CHR 0xBE, CHR 0xD0, CHR 0xB4, CHR 0xD0, CHR 0xB5, CHR 0xD1,
       CHR 0x80, CHR 0xD0, CHR 0xB6, CHR 0xD0, CHR 0xB8, CHR 0xD1, CHR 0x82] @ '' '' @
       [CHR 0xD0, CHR 0xBA, CHR 0xD0, CHR 0xBB, CHR 0xD1, CHR 0x8E, CHR 0xD1, CHR 0x87] @
       '' '' @ [CHR 0x22] @ ''homeworks'' @ [CHR 0x22] @ '': ''"

definition txt_has_homeworks :: string where
  \<comment> \<open>The server answer has data on homeworks\<close>
  "txt_has_homeworks =
     [CHR 0xD0, CHR 0x9E, CHR 0xD1, CHR 0x82, CHR 0xD0, CHR 0xB2, CHR 0xD0, CHR 0xB5,
       CHR 0xD1, CHR 0x82] @ '' '' @ [CHR 0xD1, CHR 0x81, CHR 0xD0, CHR 0xB5, CHR 0xD1,
       CHR 0x80, CHR 0xD0, CHR 0xB2, CHR 0xD0, CHR 0xB5, CHR 0xD1, CHR 0x80, CHR 0xD0,
       CHR 0xB0] @ '' '' @ [CHR 0xD1, CHR 0x81, CHR 0xD0, CHR 0xBE, CHR 0xD0, CHR 0xB4,
       CHR 0xD0, CHR 0xB5, CHR 0xD1, CHR 0x80, CHR 0xD0, CHR 0xB6, CHR 0xD0, CHR 0xB8,
       CHR 0xD1, CHR 0x82] @ '' '' @ [CHR 0xD1, CHR 0x81, CHR 0xD0, CHR 0xB2, CHR 0xD0,
       CHR 0xB5, CHR 0xD0, CHR 0xB4, CHR 0xD0, CHR 0xB5, CHR 0xD0, CHR 0xBD, CHR 0xD0,
       CHR 0xB8, CHR 0xD1, CHR 0x8F] @ '' '' @ [CHR 0xD0, CHR 0xBE] @ '' '' @ [CHR 0xD0,
       CHR 0xB4, CHR 0xD0, CHR 0xBE, CHR 0xD0, CHR 0xBC, CHR 0xD0, CHR 0xB0, CHR 0xD1,
       CHR 0x88, CHR 0xD0, CHR 0xBD, CHR 0xD0, CHR 0xB8, CHR 0xD1, CHR 0x85] @ '' '' @
       [CHR 0xD1, CHR 0x80, CHR 0xD0, CHR 0xB0, CHR 0xD0, CHR 0xB1, CHR 0xD0, CHR 0xBE,
       CHR 0xD1, CHR 0x82, CHR 0xD0, CHR 0xB0, CHR 0xD1, CHR 0x85]"

definition txt_has_no_homeworks :: string where
  \<comment> \<open>The server answer has no data on homeworks\<close>
  "txt_has_no_homeworks =
     [CHR 0xD0, CHR 0x9E, CHR 0xD1, CHR 0x82, CHR 0xD0, CHR 0xB2, CHR 0xD0, CHR 0xB5,
       CHR 0xD1, CHR 0x82] @ '' '' @ [CHR 0xD1, CHR 0x81, CHR 0xD0, CHR 0xB5, CHR 0xD1,
       CHR 0x80, CHR 0xD0, CHR 0xB2, CHR 0xD0, CHR 0xB5, CHR 0xD1, CHR 0x80, CHR 0xD0,
       CHR 0xB0] @ '' '' @ [CHR 0xD0, CHR 0xBD, CHR 0xD0, CHR 0xB5] @ '' '' @ [CHR 0xD1,
       CHR 0x81, CHR 0xD0, CHR 0xBE, CHR 0xD0, CHR 0xB4, CHR 0xD0, CHR 0xB5, CHR 0xD1,
       CHR 0x80, CHR 0xD0, CHR 0xB6, CHR 0xD0, CHR 0xB8, CHR 0xD1, CHR 0x82] @ '' '' @
       [CHR 0xD1, CHR 0x81, CHR 0xD0, CHR 0xB2, CHR 0xD0, CHR 0xB5, CHR 0xD0, CHR 0xB4,
       CHR 0xD0, CHR 0xB5, CHR 0xD0, CHR 0xBD, CHR 0xD0, CHR 0xB8, CHR 0xD1, CHR 0x8F] @
       '' '' @ [CHR 0xD0, CHR 0xBE] @ '' '' @ [CHR 0xD0, CHR 0xB4, CHR 0xD0, CHR 0xBE,
       CHR 0xD0, CHR 0xBC, CHR 0xD0, CHR 0xB0, CHR 0xD1, CHR 0x88, CHR 0xD0, CHR 0xBD,
       CHR 0xD0, CHR 0xB8, CHR 0xD1, CHR 0x85] @ '' '' @ [CHR 0xD1, CHR 0x80, CHR 0xD0,
       CHR 0xB0, CHR 0xD0, CHR 0xB1, CHR 0xD0, CHR 0xBE, CHR 0xD1, CHR 0x82, CHR 0xD0,
       CHR 0xB0, CHR 0xD1, CHR 0x85]"

definition txt_no_current_date_key :: string where
  \<comment> \<open>The server answer has no current date (key ''current_date''): \<close>
  "txt_no_current_date_key =
     [CHR 0xD0, CHR 0x9E, CHR 0xD1, CHR 0x82, CHR 0xD0, CHR 0xB2, CHR 0xD0, CHR 0xB5,
       CHR 0xD1, CHR 0x82] @ '' '' @ [CHR 0xD1, CHR 0x81, CHR 0xD0, CHR 0xB5, CHR 0xD1,
       CHR 0x80, CHR 0xD0, CHR 0xB2, CHR 0xD0, CHR 0xB5, CHR 0xD1, CHR 0x80, CHR 0xD0,
       CHR 0xB0] @ '' '' @ [CHR 0xD0, CHR 0xBD, CHR 0xD0, CHR 0xB5] @ '' '' @ [CHR 0xD1,
       CHR 0x81, CHR 0xD0, CHR 0xBE, CHR 0xD0, CHR 0xB4, CHR 0xD0, CHR 0xB5, CHR 0xD1,
       CHR 0x80, CHR 0xD0, CHR 0xB6, CHR 0xD0, CHR 0xB8, CHR 0xD1, CHR 0x82] @ '' '' @
       [CHR 0xD1, CHR 0x82, CHR 0xD0, CHR 0xB5, CHR 0xD0, CHR 0xBA, CHR 0xD1, CHR 0x83,
       CHR 0xD1, CHR 0x89, CHR 0xD1, CHR 0x83, CHR 0xD1, CHR 0x8E] @ '' '' @ [CHR 0xD0,
       CHR 0xB4, CHR 0xD0, CHR 0xB0, CHR 0xD1, CHR 0x82, CHR 0xD1, CHR 0x83] @ '' ('' @
       [CHR 0xD0, CHR 0xBA, CHR 0xD0, CHR 0xBB, CHR 0xD1, CHR 0x8E, CHR 0xD1, CHR 0x87] @
       '' '' @ [CHR 0x22] @ ''current_date'' @ [CHR 0x22] @ ''): ''"

definition txt_has_current_date :: string where
  \<comment> \<open>The server answer has the current date (key ''current_date'')\<close>
  "txt_has_current_date =
     [CHR 0xD0, CHR 0x9E, CHR 0xD1, CHR 0x82, CHR 0xD0, CHR 0xB2, CHR 0xD0, CHR 0xB5,
       CHR 0xD1, CHR 0x82] @ '' '' @ [CHR 0xD1, CHR 0x81, CHR 0xD0, CHR 0xB5, CHR 0xD1,
       CHR 0x80, CHR 0xD0, CHR 0xB2, CHR 0xD0, CHR 0xB5, CHR 0xD1, CHR 0x80, CHR 0xD0,
       CHR 0xB0] @ '' '' @ [CHR 0xD1, CHR 0x81, CHR 0xD0, CHR 0xBE, CHR 0xD0, CHR 0xB4,
       CHR 0xD0, CHR 0xB5, CHR 0xD1, CHR 0x80, CHR 0xD0, CHR 0xB6, CHR 0xD0, CHR 0xB8,
       CHR 0xD1, CHR 0x82] @ '' '' @ [CHR 0xD1, CHR 0x82, CHR 0xD0, CHR 0xB5, CHR 0xD0,
       CHR 0xBA, CHR 0xD1, CHR 0x83, CHR 0xD1, CHR 0x89, CHR 0xD1, CHR 0x83, CHR 0xD1,
       CHR 0x8E] @ '' '' @ [CHR 0xD0, CHR 0xB4, CHR 0xD0, CHR 0xB0, CHR 0xD1, CHR 0x82,
       CHR 0xD1, CHR 0x83] @ '' ('' @ [CHR 0xD0, CHR 0xBA, CHR 0xD0, CHR 0xBB, CHR 0xD1,
       CHR 0x8E, CHR 0xD1, CHR 0x87] @ '' '' @ [CHR 0x22] @ ''current_date'' @ [CHR 0x22] @
       '')''"

definition txt_homeworks_type_ok :: string where
  \<comment> \<open>Checked the data type of the server answer under the key ''homeworks'': \<close>
  "txt_homeworks_type_ok =
     [CHR 0xD0, CHR 0x9F, CHR 0xD1, CHR 0x80, CHR 0xD0, CHR 0xBE, CHR 0xD0, CHR 0xB2,
       CHR 0xD0, CHR 0xB5, CHR 0xD1, CHR 0x80, CHR 0xD0, CHR 0xB5, CHR 0xD0, CHR 0xBD] @
       '' '' @ [CHR 0xD1, CHR 0x82, CHR 0xD0, CHR 0xB8, CHR 0xD0, CHR 0xBF] @ '' '' @
       [CHR 0xD0, CHR 0xB4, CHR 0xD0, CHR 0xB0, CHR 0xD0, CHR 0xBD, CHR 0xD0, CHR 0xBD,
       CHR 0xD1, CHR 0x8B, CHR 0xD1, CHR 0x85] @ '' '' @ [CHR 0xD0, CHR 0xBE, CHR 0xD1,
       CHR 0x82, CHR 0xD0, CHR 0xB2, CHR 0xD0, CHR 0xB5, CHR 0xD1, CHR 0x82, CHR 0xD0,
       CHR 0xB0] @ '' '' @ [CHR 0xD1, CHR 0x81, CHR 0xD0, CHR 0xB5, CHR 0xD1, CHR 0x80,
       CHR 0xD0, CHR 0xB2, CHR 0xD0, CHR 0xB5, CHR 0xD1, CHR 0x80, CHR 0xD0, CHR 0xB0] @
       '' '' @ [CHR 0xD1, CHR 0x81] @ '' '' @ [CHR 0xD0, CHR 0xBA, CHR 0xD0, CHR 0xBB,
       CHR 0xD1, CHR 0x8E, CHR 0xD1, CHR 0x87, CHR 0xD0, CHR 0xBE, CHR 0xD0, CHR 0xBC] @
       '' '' @ [CHR 0x22] @ ''homeworks'' @ [CHR 0x22] @ '': ''"

definition txt_homeworks_type_bad :: string where
  \<comment> \<open>Wrong data type of the server answer under the key ''homeworks'':\<close>
  "txt_homeworks_type_bad =
     [CHR 0xD0, CHR 0x9D, CHR 0xD0, CHR 0xB5, CHR 0xD0, CHR 0xBF, CHR 0xD1, CHR 0x80,
       CHR 0xD0, CHR 0xB0, CHR 0xD0, CHR 0xB2, CHR 0xD0, CHR 0xB8, CHR 0xD0, CHR 0xBB,
       CHR 0xD1, CHR 0x8C, CHR 0xD0, CHR 0xBD, CHR 0xD1, CHR 0x8B, CHR 0xD0, CHR 0xB9] @
       '' '' @ [CHR 0xD1, CHR 0x82, CHR 0xD0, CHR 0xB8, CHR 0xD0, CHR 0xBF] @ '' '' @
       [CHR 0xD0, CHR 0xB4, CHR 0xD0, CHR 0xB0, CHR 0xD0, CHR 0xBD, CHR 0xD0, CHR 0xBD,
       CHR 0xD1, CHR 0x8B, CHR 0xD1, CHR 0x85] @ '' '' @ [CHR 0xD0, CHR 0xBE, CHR 0xD1,
       CHR 0x82, CHR 0xD0, CHR 0xB2, CHR 0xD0, CHR 0xB5, CHR 0xD1, CHR 0x82, CHR 0xD0,
       CHR 0xB0] @ '' '' @ [CHR 0xD1, CHR 0x81, CHR 0xD0, CHR 0xB5, CHR 0xD1, CHR 0x80,
       CHR 0xD0, CHR 0xB2, CHR 0xD0, CHR 0xB5, CHR 0xD1, CHR 0x80, CHR 0xD0, CHR 0xB0] @
       '' '' @ [CHR 0xD1, CHR 0x81] @ '' '' @ [CHR 0xD0, CHR 0xBA, CHR 0xD0, CHR 0xBB,
       CHR 0xD1, CHR 0x8E, CHR 0xD1, CHR 0x87, CHR 0xD0, CHR 0xBE, CHR 0xD0, CHR 0xBC] @
       '' '' @ [CHR 0x22] @ ''homeworks'' @ [CHR 0x22] @ '':''"

definition txt_no_such_status :: string where
  \<comment> \<open>There is no such status\<close>
  "txt_no_such_status =
     [CHR 0xD0, CHR 0xA2, CHR 0xD0, CHR 0xB0, CHR 0xD0, CHR 0xBA, CHR 0xD0, CHR 0xBE,
       CHR 0xD0, CHR 0xB3, CHR 0xD0, CHR 0xBE] @ '' '' @ [CHR 0xD1, CHR 0x81, CHR 0xD1,
       CHR 0x82, CHR 0xD0, CHR 0xB0, CHR 0xD1, CHR 0x82, CHR 0xD1, CHR 0x83, CHR 0xD1,
       CHR 0x81, CHR 0xD0, CHR 0xB0] @ '' '' @ [CHR 0xD0, CHR 0xBD, CHR 0xD0, CHR 0xB5] @
       '' '' @ [CHR 0xD1, CHR 0x81, CHR 0xD1, CHR 0x83, CHR 0xD1, CHR 0x89, CHR 0xD0,
       CHR 0xB5, CHR 0xD1, CHR 0x81, CHR 0xD1, CHR 0x82, CHR 0xD0, CHR 0xB2, CHR 0xD1,
       CHR 0x83, CHR 0xD0, CHR 0xB5, CHR 0xD1, CHR 0x82]"

definition txt_no_such_name :: string where
  \<comment> \<open>There is no such name\<close>
  "txt_no_such_name =
     [CHR 0xD0, CHR 0xA2, CHR 0xD0, CHR 0xB0, CHR 0xD0, CHR 0xBA, CHR 0xD0, CHR 0xBE,
       CHR 0xD0, CHR 0xB3, CHR 0xD0, CHR 0xBE] @ '' '' @ [CHR 0xD0, CHR 0xB8, CHR 0xD0,
       CHR 0xBC, CHR 0xD0, CHR 0xB5, CHR 0xD0, CHR 0xBD, CHR 0xD0, CHR 0xB8] @ '' '' @
       [CHR 0xD0, CHR 0xBD, CHR 0xD0, CHR 0xB5] @ '' '' @ [CHR 0xD1, CHR 0x81, CHR 0xD1,
       CHR 0x83, CHR 0xD1, CHR 0x89, CHR 0xD0, CHR 0xB5, CHR 0xD1, CHR 0x81, CHR 0xD1,
       CHR 0x82, CHR 0xD0, CHR 0xB2, CHR 0xD1, CHR 0x83, CHR 0xD0, CHR 0xB5, CHR 0xD1,
       CHR 0x82]"

definition txt_no_documented_status :: string where
  \<comment> \<open>No documented statusof the check of the work ''\<close>
  "txt_no_documented_status =
     [CHR 0xD0, CHR 0x9E, CHR 0xD1, CHR 0x82, CHR 0xD1, CHR 0x81, CHR 0xD1, CHR 0x83,
       CHR 0xD1, CHR 0x82, CHR 0xD1, CHR 0x81, CHR 0xD1, CHR 0x82, CHR 0xD0, CHR 0xB2,
       CHR 0xD1, CHR 0x83, CHR 0xD0, CHR 0xB5, CHR 0xD1, CHR 0x82] @ '' '' @ [CHR 0xD0,
       CHR 0xB4, CHR 0xD0, CHR 0xBE, CHR 0xD0, CHR 0xBA, CHR 0xD1, CHR 0x83, CHR 0xD0,
       CHR 0xBC, CHR 0xD0, CHR 0xB5, CHR 0xD0, CHR 0xBD, CHR 0xD1, CHR 0x82, CHR 0xD0,
       CHR 0xB8, CHR 0xD1, CHR 0x80, CHR 0xD0, CHR 0xBE, CHR 0xD0, CHR 0xB2, CHR 0xD0,
       CHR 0xB0, CHR 0xD0, CHR 0xBD, CHR 0xD0, CHR 0xBD, CHR 0xD1, CHR 0x8B, CHR 0xD0,
       CHR 0xB9] @ '' '' @ [CHR 0xD1, CHR 0x81, CHR 0xD1, CHR 0x82, CHR 0xD0, CHR 0xB0,
       CHR 0xD1, CHR 0x82, CHR 0xD1, CHR 0x83, CHR 0xD1, CHR 0x81, CHR 0xD0, CHR 0xBF,
       CHR 0xD1, CHR 0x80, CHR 0xD0, CHR 0xBE, CHR 0xD0, CHR 0xB2, CHR 0xD0, CHR 0xB5,
       CHR 0xD1, CHR 0x80, CHR 0xD0, CHR 0xBA, CHR 0xD0, CHR 0xB8] @ '' '' @ [CHR 0xD1,
       CHR 0x80, CHR 0xD0, CHR 0xB0, CHR 0xD0, CHR 0xB1, CHR 0xD0, CHR 0xBE, CHR 0xD1,
       CHR 0x82, CHR 0xD1, CHR 0x8B] @ '' '' @ [CHR 0x22]"

definition txt_unknown_status :: string where
  \<comment> \<open>Unknown status ''\<close>
  "txt_unknown_status =
     [CHR 0xD0, CHR 0x9D, CHR 0xD0, CHR 0xB5, CHR 0xD0, CHR 0xB8, CHR 0xD0, CHR 0xB7,
       CHR 0xD0, CHR 0xB2, CHR 0xD0, CHR 0xB5, CHR 0xD1, CHR 0x81, CHR 0xD1, CHR 0x82,
       CHR 0xD0, CHR 0xBD, CHR 0xD1, CHR 0x8B, CHR 0xD0, CHR 0xB9] @ '' '' @ [CHR 0xD1,
       CHR 0x81, CHR 0xD1, CHR 0x82, CHR 0xD0, CHR 0xB0, CHR 0xD1, CHR 0x82, CHR 0xD1,
       CHR 0x83, CHR 0xD1, CHR 0x81] @ '' '' @ [CHR 0x22]"

definition txt_of_work :: string where
  \<comment> \<open>'' of the work ''\<close>
  "txt_of_work =
     [CHR 0x22] @ '' '' @ [CHR 0xD1, CHR 0x83] @ '' '' @ [CHR 0xD1, CHR 0x80, CHR 0xD0,
       CHR 0xB0, CHR 0xD0, CHR 0xB1, CHR 0xD0, CHR 0xBE, CHR 0xD1, CHR 0x82, CHR 0xD1,
       CHR 0x8B] @ '' '' @ [CHR 0x22]"

definition txt_status_changed :: string where
  \<comment> \<open>The status of the check of the work has changed ''\<close>
  "txt_status_changed =
     [CHR 0xD0, CHR 0x98, CHR 0xD0, CHR 0xB7, CHR 0xD0, CHR 0xBC, CHR 0xD0, CHR 0xB5,
       CHR 0xD0, CHR 0xBD, CHR 0xD0, CHR 0xB8, CHR 0xD0, CHR 0xBB, CHR 0xD1, CHR 0x81,
       CHR 0xD1, CHR 0x8F] @ '' '' @ [CHR 0xD1, CHR 0x81, CHR 0xD1, CHR 0x82, CHR 0xD0,
       CHR 0xB0, CHR 0xD1, CHR 0x82, CHR 0xD1, CHR 0x83, CHR 0xD1, CHR 0x81] @ '' '' @
       [CHR 0xD0, CHR 0xBF, CHR 0xD1, CHR 0x80, CHR 0xD0, CHR 0xBE, CHR 0xD0, CHR 0xB2,
       CHR 0xD0, CHR 0xB5, CHR 0xD1, CHR 0x80, CHR 0xD0, CHR 0xBA, CHR 0xD0, CHR 0xB8] @
       '' '' @ [CHR 0xD1, CHR 0x80, CHR 0xD0, CHR 0xB0, CHR 0xD0, CHR 0xB1, CHR 0xD0,
       CHR 0xBE, CHR 0xD1, CHR 0x82, CHR 0xD1, CHR 0x8B] @ '' '' @ [CHR 0x22]"

definition txt_sent :: string where
  \<comment> \<open>The message to Telegram is sent: \<close>
  "txt_sent =
     [CHR 0xD0, CHR 0xA1, CHR 0xD0, CHR 0xBE, CHR 0xD0, CHR 0xBE, CHR 0xD0, CHR 0xB1,
       CHR 0xD1, CHR 0x89, CHR 0xD0, CHR 0xB5, CHR 0xD0, CHR 0xBD, CHR 0xD0, CHR 0xB8,
       CHR 0xD0, CHR 0xB5] @ '' '' @ [CHR 0xD0, CHR 0xB2] @ '' Telegram '' @ [CHR 0xD0,
       CHR 0xBE, CHR 0xD1, CHR 0x82, CHR 0xD0, CHR 0xBF, CHR 0xD1, CHR 0x80, CHR 0xD0,
       CHR 0xB0, CHR 0xD0, CHR 0xB2, CHR 0xD0, CHR 0xBB, CHR 0xD0, CHR 0xB5, CHR 0xD0,
       CHR 0xBD, CHR 0xD0, CHR 0xBE] @ '': ''"

definition txt_not_sent :: string where
  \<comment> \<open>The message to Telegram is not sent: \<close>
  "txt_not_sent =
     [CHR 0xD0, CHR 0xA1, CHR 0xD0, CHR 0xBE, CHR 0xD0, CHR 0xBE, CHR 0xD0, CHR 0xB1,
       CHR 0xD1, CHR 0x89, CHR 0xD0, CHR 0xB5, CHR 0xD0, CHR 0xBD, CHR 0xD0, CHR 0xB8,
       CHR 0xD0, CHR 0xB5] @ '' '' @ [CHR 0xD0, CHR 0xB2] @ '' Telegram '' @ [CHR 0xD0,
       CHR 0xBD, CHR 0xD0, CHR 0xB5] @ '' '' @ [CHR 0xD0, CHR 0xBE, CHR 0xD1, CHR 0x82,
       CHR 0xD0, CHR 0xBF, CHR 0xD1, CHR 0x80, CHR 0xD0, CHR 0xB0, CHR 0xD0, CHR 0xB2,
       CHR 0xD0, CHR 0xBB, CHR 0xD0, CHR 0xB5, CHR 0xD0, CHR 0xBD, CHR 0xD0, CHR 0xBE] @
       '': ''"

definition txt_token_missing :: string where
  \<comment> \<open>A token is missing. The bot is stopped!\<close>
  "txt_token_missing =
     [CHR 0xD0, CHR 0x9E, CHR 0xD1, CHR 0x82, CHR 0xD1, CHR 0x81, CHR 0xD1, CHR 0x83,
       CHR 0xD1, CHR 0x82, CHR 0xD1, CHR 0x81, CHR 0xD1, CHR 0x82, CHR 0xD0, CHR 0xB2,
       CHR 0xD1, CHR 0x83, CHR 0xD0, CHR 0xB5, CHR 0xD1, CHR 0x82] @ '' '' @ [CHR 0xD1,
       CHR 0x82, CHR 0xD0, CHR 0xBE, CHR 0xD0, CHR 0xBA, CHR 0xD0, CHR 0xB5, CHR 0xD0,
       CHR 0xBD] @ ''. '' @ [CHR 0xD0, CHR 0x91, CHR 0xD0, CHR 0xBE, CHR 0xD1, CHR 0x82] @
       '' '' @ [CHR 0xD0, CHR 0xBE, CHR 0xD1, CHR 0x81, CHR 0xD1, CHR 0x82, CHR 0xD0,
       CHR 0xB0, CHR 0xD0, CHR 0xBD, CHR 0xD0, CHR 0xBE, CHR 0xD0, CHR 0xB2, CHR 0xD0,
       CHR 0xBB, CHR 0xD0, CHR 0xB5, CHR 0xD0, CHR 0xBD] @ ''!''"

definition txt_bot_started :: string where
  \<comment> \<open>The bot has started work\<close>
  "txt_bot_started =
     [CHR 0xD0, CHR 0x91, CHR 0xD0, CHR 0xBE, CHR 0xD1, CHR 0x82] @ '' '' @ [CHR 0xD0,
       CHR 0xBD, CHR 0xD0, CHR 0xB0, CHR 0xD1, CHR 0x87, CHR 0xD0, CHR 0xB0, CHR 0xD0,
       CHR 0xBB] @ '' '' @ [CHR 0xD1, CHR 0x80, CHR 0xD0, CHR 0xB0, CHR 0xD0, CHR 0xB1,
       CHR 0xD0, CHR 0xBE, CHR 0xD1, CHR 0x82, CHR 0xD1, CHR 0x83]"

definition txt_no_new_statuses :: string where
  \<comment> \<open>No new statuses\<close>
  "txt_no_new_statuses =
     [CHR 0xD0, CHR 0x9D, CHR 0xD0, CHR 0xB5, CHR 0xD1, CHR 0x82] @ '' '' @ [CHR 0xD0,
       CHR 0xBD, CHR 0xD0, CHR 0xBE, CHR 0xD0, CHR 0xB2, CHR 0xD1, CHR 0x8B, CHR 0xD1,
       CHR 0x85] @ '' '' @ [CHR 0xD1, CHR 0x81, CHR 0xD1, CHR 0x82, CHR 0xD0, CHR 0xB0,
       CHR 0xD1, CHR 0x82, CHR 0xD1, CHR 0x83, CHR 0xD1, CHR 0x81, CHR 0xD0, CHR 0xBE,
       CHR 0xD0, CHR 0xB2]"

definition txt_failure :: string where
  \<comment> \<open>Failure in the work of the program: \<close>
  "txt_failure =
     [CHR 0xD0, CHR 0xA1, CHR 0xD0, CHR 0xB1, CHR 0xD0, CHR 0xBE, CHR 0xD0, CHR 0xB9] @
       '' '' @ [CHR 0xD0, CHR 0xB2] @ '' '' @ [CHR 0xD1, CHR 0x80, CHR 0xD0, CHR 0xB0,
       CHR 0xD0, CHR 0xB1, CHR 0xD0, CHR 0xBE, CHR 0xD1, CHR 0x82, CHR 0xD0, CHR 0xB5] @
       '' '' @ [CHR 0xD0, CHR 0xBF, CHR 0xD1, CHR 0x80, CHR 0xD0, CHR 0xBE, CHR 0xD0,
       CHR 0xB3, CHR 0xD1, CHR 0x80, CHR 0xD0, CHR 0xB0, CHR 0xD0, CHR 0xBC, CHR 0xD0,
       CHR 0xBC, CHR 0xD1, CHR 0x8B] @ '': ''"

section \<open>Configuration and constants\<close>

text \<open>
  The three values \<open>os.getenv\<close> reads at import: \<open>None\<close> when the variable is not set,
  the (possibly empty) string when it is.
\<close>

record config =
  PRACTICUM_TOKEN :: "string option"
  TELEGRAM_TOKEN :: "string option"
  TELEGRAM_CHAT_ID :: "string option"

definition RETRY_PERIOD :: nat where
  "RETRY_PERIOD = 600"

definition ENDPOINT :: string where
  "ENDPOINT = ''https://practicum.yandex.ru/api/user_api/homework_statuses/''"

definition HEADERS :: "config \<Rightarrow> json" where
  "HEADERS cfg = JDict [(''Authorization'', JStr (''OAuth '' @ opt_str (PRACTICUM_TOKEN cfg)))]"

definition HOMEWORK_VERDICTS :: "(string \<times> string) list" where
  "HOMEWORK_VERDICTS =
     [(''approved'', verdict_approved),
      (''reviewing'', verdict_reviewing),
      (''rejected'', verdict_rejected)]"

section \<open>The effects of the program\<close>

text \<open>
  What the program does to the outside: the log calls, the calls of \<open>bot.send_message\<close>
  (chat id and text, whether or not Telegram took the message) and the seconds slept.
  The notifier is \<open>telegram.Bot.send_message\<close>: it returns, here \<open>None\<close>, or raises
  \<open>telegram.TelegramError\<close>, the class every failure of the Telegram library derives
  from, here \<open>Some\<close> of the error's text.
\<close>

record world =
  log :: "log_entry list"
  bot_calls :: "(string option \<times> string) list"
  slept :: nat

type_synonym telegram_bot = "string option \<Rightarrow> string \<Rightarrow> string option"

definition add_logs :: "log_entry list \<Rightarrow> world \<Rightarrow> world" where
  "add_logs es w = w\<lparr>log := log w @ es\<rparr>"

definition sleep :: "nat \<Rightarrow> world \<Rightarrow> world" where
  "sleep n w = w\<lparr>slept := slept w + n\<rparr>"

section \<open>The functions of \<open>homework.py\<close>\<close>

definition send_message :: "config \<Rightarrow> telegram_bot \<Rightarrow> string \<Rightarrow> world \<Rightarrow> world" where
  "send_message cfg bot' message w =
     (let w' = w\<lparr>bot_calls := bot_calls w @ [(TELEGRAM_CHAT_ID cfg, message)]\<rparr> in
      case bot' (TELEGRAM_CHAT_ID cfg) message of
        None \<Rightarrow> add_logs [Log ModuleLogger DEBUG (txt_sent @ message)] w'
      | Some telegram_error \<Rightarrow>
          add_logs [Log ModuleLogger ERROR (txt_not_sent @ telegram_error)] w')"

definition log_and_send_error_to_Telegram :: "config \<Rightarrow> telegram_bot \<Rightarrow> string \<Rightarrow> world \<Rightarrow> world" where
  "log_and_send_error_to_Telegram cfg bot' message w =
     send_message cfg bot' message (add_logs [Log ModuleLogger ERROR message] w)"

definition opt_truthy :: "string option \<Rightarrow> bool" where
  "opt_truthy v = (case v of None \<Rightarrow> False | Some s \<Rightarrow> s \<noteq> [])"

definition check_tokens :: "config \<Rightarrow> log_entry list \<times> bool" where
  "check_tokens cfg =
     ([Log RootLogger INFO txt_check_tokens],
      list_all opt_truthy [PRACTICUM_TOKEN cfg, TELEGRAM_TOKEN cfg, TELEGRAM_CHAT_ID cfg])"

text \<open>
  The answer of \<open>requests.get\<close>: its status code, reason and text, and what
  \<open>response.json()\<close> gives, a value or the decoder's exception.
\<close>

record http_response =
  status_code :: int
  reason :: string
  body_text :: string
  body_json :: "exn + json"

definition request_text :: "config \<Rightarrow> json \<Rightarrow> string" where
  \<comment> \<open>\<open>'{url}, {headers}, {params}.'.format(**request_params)\<close>\<close>
  "request_text cfg timestamp =
     ENDPOINT @ '', '' @ py_repr (HEADERS cfg) @ '', ''
       @ py_repr (JDict [(''from_date'', timestamp)]) @ ''.''"

definition wrong_code_text :: "http_response \<Rightarrow> string" where
  "wrong_code_text response =
     txt_answer_not_200 @ txt_answer_code @ str_int (status_code response) @ ''. ''
       @ txt_answer_reason @ reason response @ ''. ''
       @ txt_answer_text @ body_text response @ ''.''"

text \<open>
  \<open>get_api_answer timestamp\<close>, given the clock (read only when the timestamp is falsy) and
  what \<open>requests.get\<close> did: raised, or returned a response. Whatever is raised inside the
  \<open>try\<close>, the function's own \<open>WrongResponseCode\<close> too, reaches \<open>except Exception\<close> and
  leaves wrapped in a second \<open>WrongResponseCode\<close>.
\<close>

definition get_api_answer ::
  "config \<Rightarrow> json \<Rightarrow> int \<Rightarrow> exn + http_response \<Rightarrow> log_entry list \<times> (exn + json)" where
  "get_api_answer cfg timestamp now answer =
     (let timestamp' = (if truthy timestamp then timestamp else JInt now);
          started = [Log RootLogger INFO (txt_request_start @ request_text cfg timestamp')];
          tried =
            (case answer of
               Inl error \<Rightarrow> Inl error
             | Inr response \<Rightarrow>
                 if status_code response \<noteq> 200
                 then Inl (Raised WrongResponseCode (wrong_code_text response))
                 else body_json response)
      in case tried of
           Inr v \<Rightarrow> (started, Inr v)
         | Inl error \<Rightarrow>
             (started, Inl (Rewrapped (txt_api_not_200 @ request_text cfg timestamp') error)))"

fun check_response :: "json \<Rightarrow> log_entry list \<times> (exn + json list)" where
  "check_response (JDict d) =
     (let l1 = [Log ModuleLogger DEBUG (txt_response_type_ok @ py_class (JDict d))] in
      case map_of d ''homeworks'' of
        None \<Rightarrow> (l1, Inl (Raised KeyError (txt_no_homeworks_key @ py_repr (JDict d))))
      | Some homeworks \<Rightarrow>
          (let l2 = l1 @ [if truthy homeworks then Log ModuleLogger DEBUG txt_has_homeworks
                          else Log ModuleLogger INFO txt_has_no_homeworks] in
           case map_of d ''current_date'' of
             None \<Rightarrow> (l2, Inl (Raised KeyError (txt_no_current_date_key @ py_repr (JDict d))))
           | Some current_date \<Rightarrow>
               (let l3 = l2 @ (if truthy current_date
                               then [Log ModuleLogger DEBUG txt_has_current_date] else []) in
                case homeworks of
                  JList hs \<Rightarrow>
                    (l3 @ [Log ModuleLogger DEBUG (txt_homeworks_type_ok @ py_class homeworks)],
                     Inr hs)
                | _ \<Rightarrow>
                    (l3, Inl (Raised TypeError (txt_homeworks_type_bad @ py_class homeworks))))))"
| "check_response response =
     ([], Inl (Raised TypeError (txt_response_type_bad @ py_class response)))"

text \<open>
  \<open>HOMEWORK_VERDICTS.get(key)\<close>, \<open>key not in HOMEWORK_VERDICTS\<close> and
  \<open>HOMEWORK_VERDICTS[key]\<close>: a list or a dict as key is unhashable and raises \<open>TypeError\<close>;
  any other value that is not one of the three strings is simply not there.
\<close>

fun verdicts_lookup :: "json \<Rightarrow> exn + string option" where
  "verdicts_lookup (JStr s) = Inr (map_of HOMEWORK_VERDICTS s)"
| "verdicts_lookup (JList xs) =
     Inl (Raised TypeError (''unhashable type: '' @ [sq] @ py_type (JList xs) @ [sq]))"
| "verdicts_lookup (JDict kvs) =
     Inl (Raised TypeError (''unhashable type: '' @ [sq] @ py_type (JDict kvs) @ [sq]))"
| "verdicts_lookup _ = Inr None"

definition verdicts_get :: "json \<Rightarrow> exn + string option" where
  "verdicts_get key = verdicts_lookup key"

definition verdicts_contains :: "json \<Rightarrow> exn + bool" where
  "verdicts_contains key =
     (case verdicts_lookup key of Inl e \<Rightarrow> Inl e | Inr v \<Rightarrow> Inr (v \<noteq> None))"

definition verdicts_item :: "json \<Rightarrow> exn + string" where
  "verdicts_item key =
     (case verdicts_lookup key of
        Inl e \<Rightarrow> Inl e
      | Inr None \<Rightarrow> Inl (Raised KeyError (py_repr key))
      | Inr (Some v) \<Rightarrow> Inr v)"

fun parse_status :: "json \<Rightarrow> exn + string" where
  "parse_status (JDict d) =
     (let homework_name = dict_get d ''homework_name'' JNull;
          homework_status = dict_get d ''status'' JNull
      in case verdicts_get (dict_get d ''status'' JNull) of
           Inl e \<Rightarrow> Inl e
         | Inr verdict \<Rightarrow>
             (case verdicts_contains homework_status of
                Inl e \<Rightarrow> Inl e
              | Inr known \<Rightarrow>
                  if \<not> known then Inl (Raised KeyError txt_no_such_status)
                  else if map_of d ''homework_name'' = None
                    then Inl (Raised KeyError txt_no_such_name)
                  else if \<not> opt_truthy verdict
                    then Inl (Raised KeyError
                           (txt_no_documented_status @ py_str homework_name @ [dq]))
                  else if is_None (JDict d)
                    then Inl (Raised UnknownStatusError
                           (txt_unknown_status @ py_str homework_status @ txt_of_work
                              @ py_str homework_name @ [dq]))
                  else (case verdicts_item homework_status of
                          Inl e \<Rightarrow> Inl e
                        | Inr verdict_text \<Rightarrow>
                            Inr (txt_status_changed @ py_str homework_name @ [dq] @ ''. ''
                                   @ verdict_text))))"
| "parse_status homework = Inl (no_attribute homework ''get'')"

section \<open>The poll loop of \<open>main\<close>\<close>

text \<open>
  What one iteration of \<open>while True\<close> meets: the two readings of the clock (in
  \<open>get_api_answer\<close> and as the default of \<open>response.get\<close>), what \<open>requests.get\<close> did, and
  how the notifier behaves.
\<close>

record tick =
  clock_api :: int
  clock_main :: int
  answer :: "exn + http_response"
  notifier :: telegram_bot

record loop_state =
  timestamp :: json
  prev_msg :: string
  world :: world

text \<open>
  The \<open>try\<close> block up to the message (lines 182 to 190): the cursor after it, the log calls
  made, and the message or the exception raised. \<open>response.get\<close> fails on an answer that is
  not a dict, before \<open>check_response\<close> can look at it; the cursor is assigned before
  \<open>check_response\<close> runs.
\<close>

definition derive_message ::
  "config \<Rightarrow> tick \<Rightarrow> json \<Rightarrow> json \<times> log_entry list \<times> (exn + string)" where
  "derive_message cfg t ts =
     (case get_api_answer cfg ts (clock_api t) (answer t) of
        (l1, Inl error) \<Rightarrow> (ts, l1, Inl error)
      | (l1, Inr response) \<Rightarrow>
          (case response of
             JDict d \<Rightarrow>
               (let ts' = dict_get d ''current_date'' (JInt (clock_main t)) in
                case check_response response of
                  (l2, Inl error) \<Rightarrow> (ts', l1 @ l2, Inl error)
                | (l2, Inr homeworks) \<Rightarrow>
                    (ts', l1 @ l2,
                     case homeworks of
                       [] \<Rightarrow> Inr txt_no_new_statuses
                     | homework # _ \<Rightarrow> parse_status homework))
           | _ \<Rightarrow> (ts, l1, Inl (no_attribute response ''get''))))"

definition failure_text :: "exn \<Rightarrow> string" where
  "failure_text error = txt_failure @ str_exn error"

definition iteration :: "config \<Rightarrow> tick \<Rightarrow> loop_state \<Rightarrow> loop_state" where
  "iteration cfg t st =
     (case derive_message cfg t (timestamp st) of
        (ts', logs, result) \<Rightarrow>
          (let st1 = st\<lparr>timestamp := ts', world := add_logs logs (world st)\<rparr>;
               st2 =
                 (case result of
                    Inr message \<Rightarrow>
                      if message \<noteq> prev_msg st1
                      then st1\<lparr>world := send_message cfg (notifier t) message (world st1),
                               prev_msg := message\<rparr>
                      else st1\<lparr>world := add_logs [Log RootLogger INFO message] (world st1)\<rparr>
                  | Inl error \<Rightarrow>
                      (let message = failure_text error;
                           st' = st1\<lparr>world :=
                                   add_logs [Log RootLogger ERROR message] (world st1)\<rparr>
                       in if exc_class_of error = Some NotForSend then st'
                          else if message \<noteq> prev_msg st'
                          then st'\<lparr>world := send_message cfg (notifier t) message (world st'),
                                   prev_msg := message\<rparr>
                          else st'))
           in st2\<lparr>world := sleep RETRY_PERIOD (world st2)\<rparr>))"

text \<open>
  The loop never leaves \<open>while True\<close>; \<open>run\<close> is its state after the iterations that a
  finite list of ticks stands for.
\<close>

fun run :: "config \<Rightarrow> tick list \<Rightarrow> loop_state \<Rightarrow> loop_state" where
  "run cfg [] st = st"
| "run cfg (t # ts) st = run cfg ts (iteration cfg t st)"

text \<open>
  \<open>sys.exit(arg)\<close>: an integer is the exit status; a string is printed and the status is 1.
\<close>

datatype exit_arg = ExitCode int | ExitMessage string

fun exit_status :: "exit_arg \<Rightarrow> int" where
  "exit_status (ExitCode n) = n"
| "exit_status (ExitMessage _) = 1"

text \<open>
  How \<open>main\<close> goes: it exits through \<open>sys.exit\<close>, it ends with an exception nothing
  catches, or it is in the loop, in the state given.
\<close>

datatype process = Exited exit_arg world | Crashed exn world | Polling loop_state

text \<open>
  \<open>main\<close>, given the clock at start, what the constructor \<open>telegram.Bot\<close> does with
  the token (it returns the bot or raises, as it does on a token it finds invalid) and the
  ticks of the loop. The constructor is called outside any \<open>try\<close>, so what it raises
  ends \<open>main\<close>.
\<close>

definition main :: "config \<Rightarrow> int \<Rightarrow> exn + telegram_bot \<Rightarrow> tick list \<Rightarrow> process" where
  "main cfg now made ticks =
     (case check_tokens cfg of
        (l0, ok) \<Rightarrow>
          (let w0 = \<lparr>log = l0, bot_calls = [], slept = 0\<rparr> in
           if \<not> ok
           then Exited (ExitMessage txt_token_missing)
                  (add_logs [Log RootLogger CRITICAL txt_token_missing] w0)
           else
             (case made of
                Inl error \<Rightarrow> Crashed error w0
              | Inr bot' \<Rightarrow>
                  (let w1 = send_message cfg bot' txt_bot_started w0;
                       w2 = add_logs [Log RootLogger INFO txt_bot_started] w1
                   in Polling
                        (run cfg ticks \<lparr>timestamp = JInt now, prev_msg = [], world = w2\<rparr>)))))"

section \<open>Notions of the specification\<close>

text \<open>
  The specification speaks of a response that is a mapping, of keys that are present and of
  a sequence; \<open>shape_fault\<close> is its list of the four faults of a response.
\<close>

fun is_mapping :: "json \<Rightarrow> bool" where
  "is_mapping (JDict _) = True"
| "is_mapping _ = False"

fun is_sequence :: "json \<Rightarrow> bool" where
  "is_sequence (JList _) = True"
| "is_sequence _ = False"

fun key_value :: "json \<Rightarrow> string \<Rightarrow> json option" where
  "key_value (JDict d) k = map_of d k"
| "key_value _ k = None"

definition shape_fault :: "json \<Rightarrow> bool" where
  "shape_fault response =
     (\<not> is_mapping response
      \<or> key_value response ''homeworks'' = None
      \<or> key_value response ''current_date'' = None
      \<or> (case key_value response ''homeworks'' of
            None \<Rightarrow> False
          | Some v \<Rightarrow> \<not> is_sequence v))"

text \<open>
  A status is recognized when it is one of the three strings of the verdict table. A value
  can be looked up in the table at all when it is hashable, which every JSON value but a
  list and a dict is.
\<close>

fun recognized :: "json \<Rightarrow> bool" where
  "recognized (JStr s) = (s \<in> {''approved'', ''reviewing'', ''rejected''})"
| "recognized _ = False"

fun hashable :: "json \<Rightarrow> bool" where
  "hashable (JList _) = False"
| "hashable (JDict _) = False"
| "hashable _ = True"

text \<open>
  A string of whole characters, as every Python \<open>str\<close> is: each lead byte has its
  continuation bytes.
\<close>

function utf8_whole :: "string \<Rightarrow> bool" where
  "utf8_whole [] = True"
| "utf8_whole (c # cs) = (utf8_tail c \<le> length cs \<and> utf8_whole (drop (utf8_tail c) cs))"
  by pat_completeness auto
termination
  by (relation "measure length") auto

text \<open>
  A string that \<open>repr\<close> shows as it is, whatever the quote: printable characters of
  ASCII only, and among them no quote of either kind and no backslash.
\<close>

definition unescaped :: "string \<Rightarrow> bool" where
  "unescaped s =
     list_all (\<lambda>c. c \<noteq> sq \<and> c \<noteq> dq \<and> c \<noteq> bs
                  \<and> 0x20 \<le> (of_char c :: int) \<and> (of_char c :: int) < 0x7F) s"

text \<open>
  The message an iteration derives: the status message or the sentinel when the \<open>try\<close>
  block gets that far, the failure text when it raises.
\<close>

definition derived :: "config \<Rightarrow> tick \<Rightarrow> loop_state \<Rightarrow> string" where
  "derived cfg t st =
     (case snd (snd (derive_message cfg t (timestamp st))) of
        Inr message \<Rightarrow> message
      | Inl error \<Rightarrow> failure_text error)"

fun derivations :: "config \<Rightarrow> tick list \<Rightarrow> loop_state \<Rightarrow> string list" where
  "derivations cfg [] st = []"
| "derivations cfg (t # ts) st = derived cfg t st # derivations cfg ts (iteration cfg t st)"

text \<open>
  A configuration value is missing, as \<open>check_tokens\<close> and its message read the word,
  when the variable is not set or set to the empty string.
\<close>

definition missing_or_empty :: "string option \<Rightarrow> bool" where
  "missing_or_empty v = (v = None \<or> v = Some [])"

section \<open>Example inputs\<close>

definition example_config :: config where
  "example_config =
     \<lparr>PRACTICUM_TOKEN = Some ''practicum'', TELEGRAM_TOKEN = Some ''1234:telegram'',
      TELEGRAM_CHAT_ID = Some ''42''\<rparr>"

definition invalid_token :: exn where
  \<comment> \<open>\<open>telegram.error.InvalidToken\<close>, which takes no argument and says \<open>Invalid token\<close>\<close>
  "invalid_token = Foreign ''InvalidToken()'' ''Invalid token''"

definition malformed_token_config :: config where
  "malformed_token_config = example_config\<lparr>TELEGRAM_TOKEN := Some ''telegram''\<rparr>"

definition delivering :: telegram_bot where
  "delivering chat message = None"

definition failing :: telegram_bot where
  "failing chat message = Some ''Timed out''"

definition ok_response :: "json \<Rightarrow> http_response" where
  "ok_response v = \<lparr>status_code = 200, reason = ''OK'', body_text = [], body_json = Inr v\<rparr>"

definition response_503 :: http_response where
  "response_503 =
     \<lparr>status_code = 503, reason = ''Service Unavailable'',
      body_text = ''down'' @ [CHR 0x0A] @ ''now'',
      body_json = Inl (Foreign ''JSONDecodeError()'' ''Expecting value'')\<rparr>"

definition reviewing_hw1 :: json where
  "reviewing_hw1 =
     JDict [(''homeworks'', JList [JDict [(''homework_name'', JStr ''hw1''),
                                          (''status'', JStr ''reviewing'')]]),
            (''current_date'', JInt 100)]"

definition tick_of :: "http_response \<Rightarrow> telegram_bot \<Rightarrow> tick" where
  "tick_of response bot' =
     \<lparr>clock_api = 1000, clock_main = 1001, answer = Inr response, notifier = bot'\<rparr>"

definition start_state :: loop_state where
  "start_state =
     \<lparr>timestamp = JInt 1, prev_msg = [],
      world = \<lparr>log = [], bot_calls = [], slept = 0\<rparr>\<rparr>"

definition hw1_message :: string where
  "hw1_message = txt_status_changed @ ''hw1'' @ [dq] @ ''. '' @ verdict_reviewing"


section \<open>Facts about the embedding\<close>

lemma verdict_texts_nonempty:
  "verdict_approved \<noteq> []" "verdict_reviewing \<noteq> []" "verdict_rejected \<noteq> []"
  by (simp_all add: verdict_approved_def verdict_reviewing_def verdict_rejected_def)

lemma verdicts_map_of:
  "map_of HOMEWORK_VERDICTS s =
     (if s = ''approved'' then Some verdict_approved
      else if s = ''reviewing'' then Some verdict_reviewing
      else if s = ''rejected'' then Some verdict_rejected else None)"
  by (simp add: HOMEWORK_VERDICTS_def)

subsection \<open>Texts\<close>

lemma py_quote_cases: "py_quote s = sq \<or> py_quote s = dq"
  by (simp add: py_quote_def)

lemma utf8_chars_append:
  "utf8_whole a \<Longrightarrow> utf8_chars (a @ b) = utf8_chars a @ utf8_chars b"
  by (induction a rule: utf8_whole.induct) simp_all

lemma utf8_whole_append:
  "utf8_whole a \<Longrightarrow> utf8_whole b \<Longrightarrow> utf8_whole (a @ b)"
  by (induction a rule: utf8_whole.induct) simp_all

lemma py_escape_append:
  "utf8_whole a \<Longrightarrow> py_escape q (a @ b) = py_escape q a @ py_escape q b"
  by (simp add: py_escape_def utf8_chars_append)

lemma unescaped_append: "unescaped (a @ b) = (unescaped a \<and> unescaped b)"
  by (simp add: unescaped_def)

lemma unescaped_Cons: "unescaped (c # s) = (unescaped [c] \<and> unescaped s)"
  by (simp add: unescaped_def)

lemma unescaped_tail: "unescaped [c] \<Longrightarrow> utf8_tail c = 0"
  by (simp add: unescaped_def utf8_tail_def)

lemma unescaped_chars: "unescaped s \<Longrightarrow> utf8_chars s = map (\<lambda>c. [c]) s"
proof (induction s)
  case Nil
  show ?case by simp
next
  case (Cons c s)
  from Cons.prems have "unescaped [c]" "unescaped s"
    using unescaped_Cons by blast+
  with Cons.IH show ?case by (simp add: unescaped_tail)
qed

lemma unescaped_whole: "unescaped s \<Longrightarrow> utf8_whole s"
proof (induction s)
  case Nil
  show ?case by simp
next
  case (Cons c s)
  from Cons.prems have "unescaped [c]" "unescaped s"
    using unescaped_Cons by blast+
  with Cons.IH show ?case by (simp add: unescaped_tail)
qed

lemma py_escape_char_plain:
  assumes "unescaped [c]" and "q = sq \<or> q = dq"
  shows "py_escape_char q [c] = [c]"
proof -
  from assms(1) have range: "0x20 \<le> (of_char c :: int)" "(of_char c :: int) < 0x7F"
    and other: "c \<noteq> sq" "c \<noteq> dq" "c \<noteq> bs"
    by (simp_all add: unescaped_def)
  from range have "code_point [c] = of_char c"
    by (simp add: lead_bits_def)
  with range other assms(2) show ?thesis
    by (auto simp add: py_escape_char_def)
qed

lemma py_escape_unescaped:
  assumes "unescaped s" and "q = sq \<or> q = dq"
  shows "py_escape q s = s"
proof -
  have "concat (map (py_escape_char q) (map (\<lambda>c. [c]) s)) = s"
    using assms(1)
  proof (induction s)
    case Nil
    show ?case by simp
  next
    case (Cons c s)
    from Cons.prems have "unescaped [c]" "unescaped s"
      using unescaped_Cons by blast+
    with Cons.IH show ?case
      by (simp add: py_escape_char_plain [OF _ assms(2)])
  qed
  with assms(1) show ?thesis
    by (simp add: py_escape_def unescaped_chars)
qed

lemma digit_chars:
  "digit 0 = CHR ''0''" "digit 1 = CHR ''1''" "digit 2 = CHR ''2''" "digit 3 = CHR ''3''"
  "digit 4 = CHR ''4''" "digit 5 = CHR ''5''" "digit 6 = CHR ''6''" "digit 7 = CHR ''7''"
  "digit 8 = CHR ''8''" "digit 9 = CHR ''9''"
  by code_simp+

lemma digit_range:
  assumes "k < 10"
  shows "digit k \<in> set ''0123456789''"
proof -
  from assms have "k = 0 \<or> k = 1 \<or> k = 2 \<or> k = 3 \<or> k = 4 \<or> k = 5 \<or> k = 6 \<or> k = 7
      \<or> k = 8 \<or> k = 9"
    by arith
  then show ?thesis
    using digit_chars by (elim disjE) simp_all
qed

lemma unescaped_digit: "k < 10 \<Longrightarrow> unescaped [digit k]"
  by (drule digit_range) (auto simp add: unescaped_def sq_def dq_def bs_def)

lemma unescaped_str_nat: "unescaped (str_nat n)"
proof (induction n rule: str_nat.induct)
  case (1 n)
  show ?case
  proof (cases "n < 10")
    case True
    then show ?thesis by (subst str_nat.simps) (simp add: unescaped_digit)
  next
    case False
    with 1 have "unescaped (str_nat (n div 10))" by simp
    moreover have "unescaped [digit (n mod 10)]" by (rule unescaped_digit) simp
    ultimately show ?thesis using False
      by (subst str_nat.simps) (simp add: unescaped_append)
  qed
qed

lemma unescaped_str_int: "unescaped (str_int i)"
  using unescaped_str_nat [of "nat i"] unescaped_str_nat [of "nat (- i)"]
  by (simp add: str_int_def unescaped_def sq_def dq_def bs_def)

lemma unescaped_ENDPOINT: "unescaped ENDPOINT"
  by (simp add: unescaped_def ENDPOINT_def sq_def dq_def bs_def)

lemma texts_whole:
  "utf8_whole txt_api_not_200" "utf8_whole txt_answer_not_200" "utf8_whole txt_answer_code"
  "utf8_whole txt_answer_reason" "utf8_whole txt_answer_text" "utf8_whole ''. ''"
  by code_simp+

lemma sublist_within: "sublist x y \<Longrightarrow> sublist x (a @ y @ b)"
  unfolding sublist_def by (metis append.assoc)

lemma sublist_repr_str:
  assumes "s = a @ x @ b" and "utf8_whole a" and "utf8_whole x"
  shows "sublist (py_escape (py_quote s) x) (repr_str s)"
proof -
  let ?q = "py_quote s"
  have "repr_str s = ([?q] @ py_escape ?q a) @ py_escape ?q x @ (py_escape ?q b @ [?q])"
    by (simp add: repr_str_def Let_def assms py_escape_append)
  then show ?thesis
    using sublist_appendI [of "py_escape ?q x" "[?q] @ py_escape ?q a" "py_escape ?q b @ [?q]"]
    by simp
qed

lemma sublist_repr_unescaped:
  assumes "s = a @ x @ b" and "utf8_whole a" and "unescaped x"
  shows "sublist x (repr_str s)"
  using sublist_repr_str [OF assms(1,2) unescaped_whole [OF assms(3)]]
    py_escape_unescaped [OF assms(3) py_quote_cases, of s]
  by simp

lemma sublist_str_exn_outer: "sublist x (repr_str m) \<Longrightarrow> sublist x (str_exn (Rewrapped m e))"
  using sublist_within [of x "repr_str m" "''(''" "'', '' @ repr_exn e @ '')''"] by simp

lemma sublist_str_exn_inner:
  assumes "sublist x (repr_str s)"
  shows "sublist x (str_exn (Rewrapped m (Raised c s)))"
proof -
  have "str_exn (Rewrapped m (Raised c s))
          = (''('' @ repr_str m @ '', '' @ class_name c @ ''('') @ repr_str s @ ''))''"
    by simp
  then show ?thesis
    using sublist_within [OF assms, of "''('' @ repr_str m @ '', '' @ class_name c @ ''(''" "''))''"]
    by simp
qed

lemma repr_str_no_break_space:
  "repr_str [CHR 0xC2, CHR 0xA0] = [sq, bs] @ ''xa0'' @ [sq]"
  by code_simp

subsection \<open>What the functions raise\<close>

lemma get_api_answer_wrong_code_raises:
  assumes "status_code response \<noteq> 200"
  shows "snd (get_api_answer cfg ts now (Inr response))
           = Inl (Rewrapped
                    (txt_api_not_200
                       @ request_text cfg (if truthy ts then ts else JInt now))
                    (Raised WrongResponseCode (wrong_code_text response)))"
  using assms by (simp add: get_api_answer_def Let_def)

lemma get_api_answer_ok:
  "snd (get_api_answer cfg ts now (Inr (ok_response v))) = Inr v"
  by (simp add: get_api_answer_def ok_response_def Let_def)

lemma verdicts_lookup_class:
  "verdicts_lookup key = Inl e \<Longrightarrow> exc_class_of e = Some TypeError"
  by (cases key) auto

lemma check_response_class:
  "snd (check_response response) = Inl e \<Longrightarrow>
     exc_class_of e = Some TypeError \<or> exc_class_of e = Some KeyError"
  by (cases response)
     (auto simp add: Let_def split: option.splits json.splits)

lemma parse_status_class:
  assumes "parse_status homework = Inl e"
  shows "exc_class_of e \<in> {Some TypeError, Some KeyError, Some AttributeError}"
proof (cases homework)
  case (JDict d)
  with assms show ?thesis
    by (auto simp add: Let_def verdicts_get_def verdicts_contains_def verdicts_item_def
        dest: verdicts_lookup_class split: sum.splits if_splits option.splits)
qed (use assms in \<open>auto simp add: no_attribute_def\<close>)

lemma get_api_answer_class:
  "snd (get_api_answer cfg ts now a) = Inl e \<Longrightarrow> exc_class_of e = Some WrongResponseCode"
  by (auto simp add: get_api_answer_def Let_def split: sum.splits)

lemma derive_message_class:
  assumes "snd (snd (derive_message cfg t ts)) = Inl e"
  shows "exc_class_of e \<noteq> Some NotForSend"
proof (cases "get_api_answer cfg ts (clock_api t) (answer t)")
  case (Pair l1 r)
  show ?thesis
  proof (cases r)
    case (Inl err)
    with Pair assms get_api_answer_class [of cfg ts "clock_api t" "answer t" err]
    show ?thesis by (simp add: derive_message_def)
  next
    case (Inr response)
    show ?thesis
    proof (cases response)
      case (JDict d)
      obtain l2 r2 where cr: "check_response (JDict d) = (l2, r2)"
        by (cases "check_response (JDict d)")
      show ?thesis
      proof (cases r2)
        case (Inl err)
        with cr check_response_class [of "JDict d" err] Pair Inr JDict assms
        show ?thesis by (auto simp add: derive_message_def Let_def)
      next
        case hs: (Inr homeworks)
        show ?thesis
        proof (cases homeworks)
          case Nil
          with cr hs Pair Inr JDict assms show ?thesis
            by (simp add: derive_message_def Let_def)
        next
          case (Cons h rest)
          with cr hs Pair Inr JDict assms have "parse_status h = Inl e"
            by (simp add: derive_message_def Let_def)
          from parse_status_class [OF this] show ?thesis by auto
        qed
      qed
    qed (use Pair Inr assms in \<open>auto simp add: derive_message_def no_attribute_def\<close>)
  qed
qed

subsection \<open>One iteration\<close>

lemma iteration_timestamp:
  "timestamp (iteration cfg t st) = fst (derive_message cfg t (timestamp st))"
  by (cases "derive_message cfg t (timestamp st)")
     (auto simp add: iteration_def Let_def split: sum.splits)

lemma timestamp_after:
  "timestamp (iteration cfg t st)
     = (case snd (get_api_answer cfg (timestamp st) (clock_api t) (answer t)) of
          Inr (JDict d) \<Rightarrow> dict_get d ''current_date'' (JInt (clock_main t))
        | _ \<Rightarrow> timestamp st)"
  unfolding iteration_timestamp
  by (cases "get_api_answer cfg (timestamp st) (clock_api t) (answer t)")
     (auto simp add: derive_message_def Let_def split: sum.splits json.splits prod.splits)

lemma iteration_prev_msg: "prev_msg (iteration cfg t st) = derived cfg t st"
proof (cases "derive_message cfg t (timestamp st)")
  case (fields ts' logs result)
  show ?thesis
  proof (cases result)
    case (Inl error)
    with fields derive_message_class [of cfg t "timestamp st" error]
    show ?thesis by (simp add: iteration_def derived_def Let_def)
  next
    case (Inr message)
    with fields show ?thesis by (simp add: iteration_def derived_def Let_def)
  qed
qed

lemma iteration_bot_calls:
  "bot_calls (world (iteration cfg t st))
     = bot_calls (world st)
         @ (if derived cfg t st \<noteq> prev_msg st
            then [(TELEGRAM_CHAT_ID cfg, derived cfg t st)] else [])"
proof (cases "derive_message cfg t (timestamp st)")
  case (fields ts' logs result)
  show ?thesis
  proof (cases result)
    case (Inl error)
    with fields derive_message_class [of cfg t "timestamp st" error]
    show ?thesis
      by (simp add: iteration_def derived_def Let_def send_message_def add_logs_def sleep_def
          split: option.splits)
  next
    case (Inr message)
    with fields show ?thesis
      by (simp add: iteration_def derived_def Let_def send_message_def add_logs_def sleep_def
          split: option.splits)
  qed
qed

lemma iteration_repeat_logged:
  assumes "derived cfg t st = prev_msg st"
  shows "\<exists>logs lvl. (lvl = INFO \<or> lvl = ERROR)
           \<and> log (world (iteration cfg t st))
               = log (world st) @ logs @ [Log RootLogger lvl (derived cfg t st)]"
proof (cases "derive_message cfg t (timestamp st)")
  case (fields ts' logs result)
  show ?thesis
  proof (cases result)
    case (Inl error)
    with fields assms derive_message_class [of cfg t "timestamp st" error]
    have "log (world (iteration cfg t st))
            = log (world st) @ logs @ [Log RootLogger ERROR (derived cfg t st)]"
      by (simp add: iteration_def derived_def Let_def add_logs_def sleep_def)
    then show ?thesis by blast
  next
    case (Inr message)
    with fields assms
    have "log (world (iteration cfg t st))
            = log (world st) @ logs @ [Log RootLogger INFO (derived cfg t st)]"
      by (simp add: iteration_def derived_def Let_def add_logs_def sleep_def)
    then show ?thesis by blast
  qed
qed



lemma run_repeats:
  "\<forall>x \<in> set (derivations cfg ticks st). x = prev_msg st \<Longrightarrow>
     bot_calls (world (run cfg ticks st)) = bot_calls (world st)
     \<and> prev_msg (run cfg ticks st) = prev_msg st"
proof (induction ticks arbitrary: st)
  case Nil
  show ?case by simp
next
  case (Cons t ticks)
  from Cons.prems have same: "derived cfg t st = prev_msg st"
    by simp
  then have keep: "prev_msg (iteration cfg t st) = prev_msg st"
    by (simp add: iteration_prev_msg)
  with Cons.prems have "\<forall>x \<in> set (derivations cfg ticks (iteration cfg t st)).
      x = prev_msg (iteration cfg t st)"
    by simp
  from Cons.IH [OF this] same keep show ?case
    by (simp add: iteration_bot_calls)
qed

lemma check_tokens_ok:
  "snd (check_tokens cfg) =
     (\<not> missing_or_empty (PRACTICUM_TOKEN cfg) \<and> \<not> missing_or_empty (TELEGRAM_TOKEN cfg)
      \<and> \<not> missing_or_empty (TELEGRAM_CHAT_ID cfg))"
  by (auto simp add: check_tokens_def opt_truthy_def missing_or_empty_def split: option.splits)

lemma derive_message_ok:
  "snd (snd (derive_message cfg (tick_of (ok_response (JDict d)) b) ts))
     = (case snd (check_response (JDict d)) of
          Inl e \<Rightarrow> Inl e
        | Inr hs \<Rightarrow> (case hs of [] \<Rightarrow> Inr txt_no_new_statuses | h # _ \<Rightarrow> parse_status h))"
proof -
  obtain l1 where g: "get_api_answer cfg ts 1000 (Inr (ok_response (JDict d))) = (l1, Inr (JDict d))"
    using get_api_answer_ok [of cfg ts 1000 "JDict d"]
    by (cases "get_api_answer cfg ts 1000 (Inr (ok_response (JDict d)))") auto
  obtain l2 r2 where c: "check_response (JDict d) = (l2, r2)"
    by (cases "check_response (JDict d)")
  show ?thesis
    using g c by (cases r2) (simp_all add: derive_message_def tick_of_def Let_def)
qed

subsection \<open>The examples\<close>

lemma hw1_parsed:
  "parse_status (JDict [(''homework_name'', JStr ''hw1''), (''status'', JStr ''reviewing'')])
     = Inr hw1_message"
  by (simp add: hw1_message_def dict_get_def verdicts_get_def verdicts_contains_def
      verdicts_item_def verdicts_map_of opt_truthy_def verdict_texts_nonempty)

lemma derived_hw1:
  "derived example_config (tick_of (ok_response reviewing_hw1) b) st = hw1_message"
  unfolding derived_def reviewing_hw1_def derive_message_ok
  by (simp add: hw1_parsed del: parse_status.simps)

lemma hw1_message_nonempty: "hw1_message \<noteq> []"
  by (simp add: hw1_message_def)


lemma str_int_503: "str_int 503 = ''503''"
  by code_simp

lemma unescaped_service_unavailable: "unescaped ''Service Unavailable''"
  by code_simp

lemma response_503_fields:
  "status_code response_503 = 503" "reason response_503 = ''Service Unavailable''"
  by (simp_all add: response_503_def)

lemma response_503_whole:
  "utf8_whole (reason response_503)" "utf8_whole (body_text response_503)"
  by code_simp+

lemma response_503_body_escaped:
  "py_escape (py_quote (wrong_code_text response_503)) (body_text response_503)
     = ''down'' @ [bs, CHR ''n''] @ ''now''"
  by code_simp


lemma no_break_space_body_escaped:
  "(case snd (get_api_answer example_config (JInt 1) 1000
            (Inr (response_503\<lparr>body_text := [CHR 0xC2, CHR 0xA0]\<rparr>))) of
      Inl e \<Rightarrow> \<not> sublist [CHR 0xC2, CHR 0xA0] (str_exn e)
    | Inr v \<Rightarrow> False)"
  by code_simp

section \<open>The validation of the response\<close>

text \<open>
  C4. \<open>check_response\<close> raises exactly when the response has one of the four faults (it is
  not a mapping, \<open>homeworks\<close> is absent, \<open>current_date\<close> is absent, \<open>homeworks\<close> is not a
  sequence), and then what it raises is a \<open>TypeError\<close> or a \<open>KeyError\<close>, the two classes
  the specification calls ShapeError; in every other case it returns the list under
  \<open>homeworks\<close>, empty or not.
\<close>

theorem check_response_shape:
  "(if shape_fault response
    then \<exists>c msg. (c = TypeError \<or> c = KeyError)
           \<and> snd (check_response response) = Inl (Raised c msg)
    else \<exists>hs. key_value response ''homeworks'' = Some (JList hs)
           \<and> snd (check_response response) = Inr hs)"
proof (cases response)
  case (JDict d)
  show ?thesis
  proof (cases "map_of d ''homeworks''")
    case None
    with JDict show ?thesis by (simp add: shape_fault_def)
  next
    case (Some hw)
    show ?thesis
    proof (cases "map_of d ''current_date''")
      case None
      with JDict Some show ?thesis by (simp add: shape_fault_def)
    next
      case (Some cd)
      with JDict \<open>map_of d ''homeworks'' = Some hw\<close> show ?thesis
        by (cases hw) (simp_all add: shape_fault_def Let_def)
    qed
  qed
qed (simp_all add: shape_fault_def)

theorem check_response_shape_witness:
  "\<not> shape_fault reviewing_hw1
   \<and> snd (check_response reviewing_hw1)
       = Inr [JDict [(''homework_name'', JStr ''hw1''), (''status'', JStr ''reviewing'')]]
   \<and> shape_fault (JDict [(''homeworks'', JStr ''hw1''), (''current_date'', JInt 100)])
   \<and> (\<exists>c msg. (c = TypeError \<or> c = KeyError)
         \<and> snd (check_response (JDict [(''homeworks'', JStr ''hw1''), (''current_date'', JInt 100)]))
             = Inl (Raised c msg))"
  using check_response_shape [of reviewing_hw1]
    check_response_shape [of "JDict [(''homeworks'', JStr ''hw1''), (''current_date'', JInt 100)]"]
  by (simp add: shape_fault_def reviewing_hw1_def)

section \<open>The message of a homework\<close>

text \<open>
  C2. For a homework whose status is one of \<open>approved\<close>, \<open>reviewing\<close>, \<open>rejected\<close> and
  that has the key \<open>homework_name\<close>, \<open>parse_status\<close> raises nothing and returns the
  message made of the name and of the text the verdict table gives for the status; the
  message holds the name (the string itself when the name is a string) and that text.
\<close>

theorem parse_status_recognized:
  assumes status: "map_of d ''status'' = Some (JStr s)"
    and known: "s \<in> {''approved'', ''reviewing'', ''rejected''}"
    and name: "map_of d ''homework_name'' = Some name"
  shows "\<exists>verdict message.
           map_of HOMEWORK_VERDICTS s = Some verdict
           \<and> parse_status (JDict d) = Inr message
           \<and> message = txt_status_changed @ py_str name @ [dq] @ ''. '' @ verdict
           \<and> sublist (py_str name) message
           \<and> sublist verdict message"
proof -
  from known obtain verdict where v: "map_of HOMEWORK_VERDICTS s = Some verdict"
    by (auto simp add: verdicts_map_of)
  let ?message = "txt_status_changed @ py_str name @ [dq] @ ''. '' @ verdict"
  from v known have "verdict \<noteq> []"
    by (auto simp add: verdicts_map_of verdict_texts_nonempty split: if_splits)
  with status name v have "parse_status (JDict d) = Inr ?message"
    by (simp add: dict_get_def verdicts_get_def verdicts_contains_def verdicts_item_def
        opt_truthy_def)
  moreover have "sublist (py_str name) ?message"
    by (rule sublist_appendI)
  moreover have "sublist verdict ?message"
    using sublist_append_leftI [of verdict "txt_status_changed @ py_str name @ [dq] @ ''. ''"]
    by simp
  ultimately show ?thesis using v by blast
qed

theorem parse_status_recognized_witness:
  "parse_status (JDict [(''homework_name'', JStr ''hw1''), (''status'', JStr ''reviewing'')])
     = Inr (txt_status_changed @ ''hw1'' @ [dq] @ ''. '' @ verdict_reviewing)
   \<and> sublist ''hw1''
        (txt_status_changed @ ''hw1'' @ [dq] @ ''. '' @ verdict_reviewing)"
  using parse_status_recognized
    [of "[(''homework_name'', JStr ''hw1''), (''status'', JStr ''reviewing'')]"
        "''reviewing''" "JStr ''hw1''"]
  by (simp add: verdicts_map_of)

text \<open>
  C3. For a homework whose status is not one of the three recognized strings (another
  string, or no status at all), or that has no key \<open>homework_name\<close>, \<open>parse_status\<close>
  raises: a \<open>KeyError\<close> saying that there is no such status, or, when the status is
  recognized and only the name is missing, that there is no such name. This is the failure
  the specification calls UnknownStatusKind.
\<close>

theorem parse_status_unknown:
  assumes "hashable (dict_get d ''status'' JNull)"
    and "\<not> recognized (dict_get d ''status'' JNull) \<or> map_of d ''homework_name'' = None"
  shows "parse_status (JDict d)
           = Inl (Raised KeyError
                    (if \<not> recognized (dict_get d ''status'' JNull)
                     then txt_no_such_status else txt_no_such_name))"
proof (cases "dict_get d ''status'' JNull")
  case (JStr s)
  with assms show ?thesis
    by (auto simp add: verdicts_get_def verdicts_contains_def verdicts_map_of)
qed (use assms in \<open>simp_all add: verdicts_get_def verdicts_contains_def\<close>)

theorem parse_status_unknown_witness:
  "parse_status (JDict [(''homework_name'', JStr ''hw1''), (''status'', JStr ''lost'')])
     = Inl (Raised KeyError txt_no_such_status)
   \<and> parse_status (JDict [(''status'', JStr ''approved'')])
     = Inl (Raised KeyError txt_no_such_name)"
  using parse_status_unknown [of "[(''homework_name'', JStr ''hw1''), (''status'', JStr ''lost'')]"]
    parse_status_unknown [of "[(''status'', JStr ''approved'')]"]
  by (simp add: dict_get_def)

section \<open>The call of the API\<close>

text \<open>
  C5 (as the code has it). When the API answers with a status code other than 200,
  \<open>get_api_answer\<close> raises \<open>WrongResponseCode\<close>. The error carries two arguments, the
  message with the request and the inner \<open>WrongResponseCode\<close> with the answer, so its text
  is the \<open>repr\<close> of that pair: it holds the address of the API and the status code in
  decimal as they are, and the reason phrase and the body text as \<open>repr\<close> escapes them;
  a reason or a body made of printable ASCII characters other than the quotes and the
  backslash is there verbatim.
\<close>

theorem get_api_answer_wrong_code:
  assumes "status_code response \<noteq> 200"
  shows "\<exists>e. snd (get_api_answer cfg ts now (Inr response)) = Inl e
           \<and> exc_class_of e = Some WrongResponseCode
           \<and> sublist ENDPOINT (str_exn e)
           \<and> sublist (str_int (status_code response)) (str_exn e)
           \<and> (utf8_whole (reason response) \<longrightarrow>
                sublist (py_escape (py_quote (wrong_code_text response)) (reason response))
                  (str_exn e))
           \<and> (utf8_whole (reason response) \<and> utf8_whole (body_text response) \<longrightarrow>
                sublist (py_escape (py_quote (wrong_code_text response)) (body_text response))
                  (str_exn e))
           \<and> (unescaped (reason response) \<longrightarrow> sublist (reason response) (str_exn e))
           \<and> (utf8_whole (reason response) \<and> unescaped (body_text response) \<longrightarrow>
                sublist (body_text response) (str_exn e))"
proof -
  let ?ts = "if truthy ts then ts else JInt now"
  let ?m = "txt_api_not_200 @ request_text cfg ?ts"
  let ?inner = "wrong_code_text response"
  let ?e = "Rewrapped ?m (Raised WrongResponseCode ?inner)"
  let ?q = "py_quote ?inner"
  let ?before_reason = "txt_answer_not_200 @ txt_answer_code @ str_int (status_code response)
                          @ ''. '' @ txt_answer_reason"
  let ?before_body = "?before_reason @ reason response @ ''. '' @ txt_answer_text"
  have raised: "snd (get_api_answer cfg ts now (Inr response)) = Inl ?e"
    by (rule get_api_answer_wrong_code_raises [OF assms])
  have m: "?m = txt_api_not_200 @ ENDPOINT
                  @ ('', '' @ py_repr (HEADERS cfg) @ '', ''
                       @ py_repr (JDict [(''from_date'', ?ts)]) @ ''.'')"
    by (simp add: request_text_def)
  have target: "sublist ENDPOINT (str_exn ?e)"
    by (rule sublist_str_exn_outer,
        rule sublist_repr_unescaped [OF m texts_whole(1) unescaped_ENDPOINT])
  have code_form: "?inner = (txt_answer_not_200 @ txt_answer_code) @ str_int (status_code response)
                     @ (''. '' @ txt_answer_reason @ reason response @ ''. ''
                          @ txt_answer_text @ body_text response @ ''.'')"
    by (simp add: wrong_code_text_def)
  have w0: "utf8_whole (txt_answer_not_200 @ txt_answer_code)"
    by (intro utf8_whole_append texts_whole)
  have code: "sublist (str_int (status_code response)) (str_exn ?e)"
    by (rule sublist_str_exn_inner,
        rule sublist_repr_unescaped [OF code_form w0 unescaped_str_int])
  have w1: "utf8_whole ?before_reason"
    by (intro utf8_whole_append texts_whole unescaped_whole [OF unescaped_str_int])
  have reason_form: "?inner = ?before_reason @ reason response
                     @ (''. '' @ txt_answer_text @ body_text response @ ''.'')"
    by (simp add: wrong_code_text_def)
  have body_form: "?inner = ?before_body @ body_text response @ ''.''"
    by (simp add: wrong_code_text_def)
  have r1: "sublist (py_escape ?q (reason response)) (str_exn ?e)"
    if "utf8_whole (reason response)"
    by (rule sublist_str_exn_inner [OF sublist_repr_str [OF reason_form w1 that]])
  have b1: "sublist (py_escape ?q (body_text response)) (str_exn ?e)"
    if r: "utf8_whole (reason response)" and b: "utf8_whole (body_text response)"
  proof -
    have w2: "utf8_whole ?before_body"
      by (intro utf8_whole_append texts_whole r unescaped_whole [OF unescaped_str_int])
    show ?thesis
      by (rule sublist_str_exn_inner [OF sublist_repr_str [OF body_form w2 b]])
  qed
  have r2: "sublist (reason response) (str_exn ?e)" if u: "unescaped (reason response)"
    using r1 [OF unescaped_whole [OF u]] py_escape_unescaped [OF u py_quote_cases, of ?inner]
    by simp
  have b2: "sublist (body_text response) (str_exn ?e)"
    if r: "utf8_whole (reason response)" and u: "unescaped (body_text response)"
    using b1 [OF r unescaped_whole [OF u]] py_escape_unescaped [OF u py_quote_cases, of ?inner]
    by simp
  from raised target code r1 b1 r2 b2 show ?thesis by simp
qed

theorem get_api_answer_wrong_code_witness:
  "\<exists>e. snd (get_api_answer example_config (JInt 1) 1000 (Inr response_503)) = Inl e
      \<and> sublist ENDPOINT (str_exn e) \<and> sublist ''503'' (str_exn e)
      \<and> sublist ''Service Unavailable'' (str_exn e)
      \<and> sublist (''down'' @ [bs, CHR ''n''] @ ''now'') (str_exn e)"
proof -
  have "status_code response_503 \<noteq> 200"
    by (simp add: response_503_fields)
  from get_api_answer_wrong_code [OF this, of example_config "JInt 1" 1000]
  show ?thesis
    unfolding response_503_fields str_int_503
    using unescaped_service_unavailable response_503_whole
    by (auto simp add: response_503_body_escaped response_503_fields)
qed

text \<open>
  The claim as stated fails on a body with a line break: the answer 503 with the body
  \<open>down\<close>, line break, \<open>now\<close> raises an error whose text has the two characters
  backslash and \<open>n\<close> in place of the line break, so the body text is not part of it.
\<close>

theorem body_text_escaped:
  "(case snd (get_api_answer example_config (JInt 1) 1000 (Inr response_503)) of
      Inl e \<Rightarrow> \<not> sublist (body_text response_503) (str_exn e)
    | Inr v \<Rightarrow> False)"
  by code_simp

section \<open>The cursor\<close>

text \<open>
  C6 (as the code has it). \<open>main\<close> assigns the cursor right after the API call and
  before \<open>check_response\<close>: whenever the call returns a mapping, the cursor becomes the
  value under \<open>current_date\<close>, whatever it is, or the clock when the key is absent,
  whether or not validation succeeds afterwards; when the call raises or its answer is not a
  mapping, the cursor stays. A falsy cursor is replaced by the clock only when the next
  request is built in \<open>get_api_answer\<close>.
\<close>

theorem cursor_follows_answer:
  "timestamp (iteration cfg t st)
     = (case snd (get_api_answer cfg (timestamp st) (clock_api t) (answer t)) of
          Inr (JDict d) \<Rightarrow> dict_get d ''current_date'' (JInt (clock_main t))
        | _ \<Rightarrow> timestamp st)
   \<and> (\<not> truthy (timestamp st) \<longrightarrow>
        get_api_answer cfg (timestamp st) now a = get_api_answer cfg (JInt now) now a)"
  by (simp add: timestamp_after) (simp add: get_api_answer_def)

theorem cursor_follows_answer_witness:
  "timestamp (iteration example_config (tick_of (ok_response reviewing_hw1) delivering)
      start_state) = JInt 100
   \<and> get_api_answer example_config (JInt 0) 1000 (Inr response_503)
       = get_api_answer example_config (JInt 1000) 1000 (Inr response_503)"
  using cursor_follows_answer [of example_config "tick_of (ok_response reviewing_hw1) delivering"
      start_state 1000 "Inr response_503"]
    cursor_follows_answer [of example_config "tick_of (ok_response reviewing_hw1) delivering"
      "start_state\<lparr>timestamp := JInt 0\<rparr>" 1000 "Inr response_503"]
  by (simp add: tick_of_def get_api_answer_ok reviewing_hw1_def dict_get_def)

text \<open>
  The claim as stated fails twice. An answer with \<open>current_date\<close> 5 and no \<open>homeworks\<close>
  fails validation, and the cursor moves from 1 to 5 all the same. An answer that validates
  with \<open>current_date\<close> 0 leaves the cursor at 0, not at the clock (1001 in the example).
\<close>

theorem cursor_moves_on_failed_validation:
  "shape_fault (JDict [(''current_date'', JInt 5)])
   \<and> timestamp start_state = JInt 1
   \<and> timestamp (iteration example_config
        (tick_of (ok_response (JDict [(''current_date'', JInt 5)])) delivering) start_state) = JInt 5
   \<and> \<not> shape_fault (JDict [(''homeworks'', JList []), (''current_date'', JInt 0)])
   \<and> timestamp (iteration example_config
        (tick_of (ok_response (JDict [(''homeworks'', JList []), (''current_date'', JInt 0)])) delivering)
        start_state) = JInt 0
   \<and> clock_main (tick_of (ok_response (JDict [(''homeworks'', JList []), (''current_date'', JInt 0)])) delivering) = 1001"
  by (simp add: timestamp_after tick_of_def get_api_answer_ok shape_fault_def dict_get_def
      start_state_def)

section \<open>The notifier\<close>

text \<open>
  C8. When \<open>bot.send_message\<close> raises a Telegram error, \<open>send_message\<close> catches it,
  logs at error level that the message was not sent, with the error's text, and returns:
  its result is a world like any other, with the call made and the log entry added.
\<close>

theorem send_message_telegram_error:
  assumes "bot' (TELEGRAM_CHAT_ID cfg) message = Some telegram_error"
  shows "send_message cfg bot' message w
           = w\<lparr>bot_calls := bot_calls w @ [(TELEGRAM_CHAT_ID cfg, message)],
                log := log w @ [Log ModuleLogger ERROR (txt_not_sent @ telegram_error)]\<rparr>"
  using assms by (simp add: send_message_def add_logs_def)

theorem send_message_telegram_error_witness:
  "send_message example_config failing ''hello'' (world start_state)
     = \<lparr>log = [Log ModuleLogger ERROR (txt_not_sent @ ''Timed out'')],
        bot_calls = [(Some ''42'', ''hello'')], slept = 0\<rparr>"
  using send_message_telegram_error [of failing example_config "''hello''" "''Timed out''" "world start_state"]
  by (simp add: failing_def example_config_def start_state_def)

section \<open>The start of \<open>main\<close>\<close>

text \<open>
  C9 (as the code has it). When any of the three configuration values is missing, \<open>main\<close>
  logs the critical message and exits through \<open>sys.exit\<close> with that message, that is
  with status 1, before any call of the notifier and before the loop. When all three are
  present, \<open>main\<close> constructs the bot from the token: when the constructor returns, the
  start message goes to the notifier and the loop is entered; when it raises, \<open>main\<close> ends
  with that exception before the loop.
\<close>

theorem main_tokens:
  "(if missing_or_empty (PRACTICUM_TOKEN cfg) \<or> missing_or_empty (TELEGRAM_TOKEN cfg)
       \<or> missing_or_empty (TELEGRAM_CHAT_ID cfg)
    then main cfg now made ticks
           = Exited (ExitMessage txt_token_missing)
               \<lparr>log = [Log RootLogger INFO txt_check_tokens,
                       Log RootLogger CRITICAL txt_token_missing],
                bot_calls = [], slept = 0\<rparr>
         \<and> exit_status (ExitMessage txt_token_missing) = 1
    else (case made of
            Inl error \<Rightarrow>
              main cfg now made ticks
                = Crashed error
                    \<lparr>log = [Log RootLogger INFO txt_check_tokens], bot_calls = [], slept = 0\<rparr>
          | Inr bot' \<Rightarrow>
              (\<exists>w. main cfg now made ticks
                     = Polling (run cfg ticks
                         \<lparr>timestamp = JInt now, prev_msg = [], world = w\<rparr>)
                   \<and> bot_calls w = [(TELEGRAM_CHAT_ID cfg, txt_bot_started)]
                   \<and> slept w = 0)))"
proof -
  have logs: "fst (check_tokens cfg) = [Log RootLogger INFO txt_check_tokens]"
    by (simp add: check_tokens_def)
  show ?thesis
    using check_tokens_ok [of cfg] logs
    by (cases "check_tokens cfg"; cases made)
       (auto simp add: main_def Let_def add_logs_def send_message_def split: option.splits)
qed

theorem main_tokens_witness:
  "(\<exists>w. main example_config 1000 (Inr delivering) []
          = Polling \<lparr>timestamp = JInt 1000, prev_msg = [], world = w\<rparr>
        \<and> bot_calls w = [(Some ''42'', txt_bot_started)])
   \<and> main (example_config\<lparr>TELEGRAM_CHAT_ID := None\<rparr>) 1000 (Inr delivering) []
       = Exited (ExitMessage txt_token_missing)
           \<lparr>log = [Log RootLogger INFO txt_check_tokens,
                   Log RootLogger CRITICAL txt_token_missing],
            bot_calls = [], slept = 0\<rparr>"
  using main_tokens [of example_config 1000 "Inr delivering" "[]"]
    main_tokens [of "example_config\<lparr>TELEGRAM_CHAT_ID := None\<rparr>" 1000 "Inr delivering" "[]"]
  by (auto simp add: example_config_def missing_or_empty_def)

text \<open>
  The claim as stated fails on a token the constructor refuses: the three values are
  present, \<open>telegram.Bot\<close> raises \<open>InvalidToken\<close>, and \<open>main\<close> ends without entering the
  loop.
\<close>

theorem invalid_token_crashes:
  "\<not> missing_or_empty (PRACTICUM_TOKEN malformed_token_config)
   \<and> \<not> missing_or_empty (TELEGRAM_TOKEN malformed_token_config)
   \<and> \<not> missing_or_empty (TELEGRAM_CHAT_ID malformed_token_config)
   \<and> main malformed_token_config 1000 (Inl invalid_token) []
       = Crashed invalid_token
           \<lparr>log = [Log RootLogger INFO txt_check_tokens], bot_calls = [], slept = 0\<rparr>"
  by (simp add: malformed_token_config_def example_config_def missing_or_empty_def main_def
      check_tokens_def opt_truthy_def)

section \<open>The poll loop\<close>



text \<open>
  C1. When two consecutive iterations derive the same message (a status message, the
  sentinel or a failure text), the second one does not call the notifier and logs the
  message; over the two iterations the notifier is called for it once, in the first, when
  the message differs from the one before, and not at all otherwise.
\<close>

theorem repeated_message_sent_once:
  assumes first: "derived cfg t1 st = m"
    and second: "derived cfg t2 (iteration cfg t1 st) = m"
  shows "bot_calls (world (iteration cfg t2 (iteration cfg t1 st)))
           = bot_calls (world (iteration cfg t1 st))
         \<and> bot_calls (world (iteration cfg t2 (iteration cfg t1 st)))
           = bot_calls (world st)
               @ (if m \<noteq> prev_msg st then [(TELEGRAM_CHAT_ID cfg, m)] else [])
         \<and> (\<exists>logs lvl. (lvl = INFO \<or> lvl = ERROR)
               \<and> log (world (iteration cfg t2 (iteration cfg t1 st)))
                   = log (world (iteration cfg t1 st)) @ logs @ [Log RootLogger lvl m])"
proof -
  have prev: "prev_msg (iteration cfg t1 st) = m"
    using first by (simp add: iteration_prev_msg)
  with second have same: "derived cfg t2 (iteration cfg t1 st) = prev_msg (iteration cfg t1 st)"
    by simp
  have "bot_calls (world (iteration cfg t2 (iteration cfg t1 st)))
          = bot_calls (world (iteration cfg t1 st))"
    using same by (simp add: iteration_bot_calls [of cfg t2])
  moreover have "bot_calls (world (iteration cfg t1 st))
          = bot_calls (world st)
              @ (if m \<noteq> prev_msg st then [(TELEGRAM_CHAT_ID cfg, m)] else [])"
    using first by (simp add: iteration_bot_calls [of cfg t1])
  moreover note iteration_repeat_logged [OF same]
  ultimately show ?thesis using second by simp
qed

theorem repeated_message_sent_once_witness:
  "bot_calls (world (iteration example_config (tick_of (ok_response reviewing_hw1) delivering)
      (iteration example_config (tick_of (ok_response reviewing_hw1) delivering) start_state)))
     = [(Some ''42'', hw1_message)]"
  using repeated_message_sent_once
      [OF derived_hw1 [of delivering start_state]
          derived_hw1 [of delivering "iteration example_config
            (tick_of (ok_response reviewing_hw1) delivering) start_state"],
       THEN conjunct2, THEN conjunct1]
    hw1_message_nonempty
  by (simp add: start_state_def example_config_def)

text \<open>
  C10. A derived message that differs from the last one becomes the last message whether
  Telegram took it or not: when the notifier raises, the failure is only logged, and as long
  as the following iterations derive the same message the notifier is not called again.
\<close>

theorem undelivered_message_not_retried:
  assumes new: "derived cfg t st = m" "m \<noteq> prev_msg st"
    and stays: "\<forall>x \<in> set (derivations cfg ticks (iteration cfg t st)). x = m"
  shows "prev_msg (iteration cfg t st) = m
         \<and> bot_calls (world (iteration cfg t st))
             = bot_calls (world st) @ [(TELEGRAM_CHAT_ID cfg, m)]
         \<and> (\<forall>err. notifier t (TELEGRAM_CHAT_ID cfg) m = Some err \<longrightarrow>
               Log ModuleLogger ERROR (txt_not_sent @ err)
                 \<in> set (log (world (iteration cfg t st))))
         \<and> bot_calls (world (run cfg ticks (iteration cfg t st)))
             = bot_calls (world (iteration cfg t st))
         \<and> prev_msg (run cfg ticks (iteration cfg t st)) = m"
proof -
  have prev: "prev_msg (iteration cfg t st) = m"
    using new by (simp add: iteration_prev_msg)
  have calls: "bot_calls (world (iteration cfg t st))
                 = bot_calls (world st) @ [(TELEGRAM_CHAT_ID cfg, m)]"
    using new by (simp add: iteration_bot_calls)
  have logged: "\<forall>err. notifier t (TELEGRAM_CHAT_ID cfg) m = Some err \<longrightarrow>
               Log ModuleLogger ERROR (txt_not_sent @ err)
                 \<in> set (log (world (iteration cfg t st)))"
  proof (cases "derive_message cfg t (timestamp st)")
    case (fields ts' logs result)
    show ?thesis
    proof (cases result)
      case (Inl error)
      with fields new derive_message_class [of cfg t "timestamp st" error]
      show ?thesis
        by (auto simp add: iteration_def derived_def Let_def send_message_def add_logs_def
            sleep_def)
    next
      case (Inr message)
      with fields new show ?thesis
        by (auto simp add: iteration_def derived_def Let_def send_message_def add_logs_def
            sleep_def)
    qed
  qed
  from stays prev have "\<forall>x \<in> set (derivations cfg ticks (iteration cfg t st)).
      x = prev_msg (iteration cfg t st)"
    by simp
  from run_repeats [OF this] prev calls logged show ?thesis by simp
qed

theorem undelivered_message_not_retried_witness:
  "prev_msg (iteration example_config (tick_of (ok_response reviewing_hw1) failing) start_state)
     = hw1_message
   \<and> Log ModuleLogger ERROR (txt_not_sent @ ''Timed out'')
       \<in> set (log (world (iteration example_config
                 (tick_of (ok_response reviewing_hw1) failing) start_state)))
   \<and> bot_calls (world (run example_config
         [tick_of (ok_response reviewing_hw1) delivering,
          tick_of (ok_response reviewing_hw1) delivering]
         (iteration example_config (tick_of (ok_response reviewing_hw1) failing) start_state)))
       = [(Some ''42'', hw1_message)]"
proof -
  let ?t = "tick_of (ok_response reviewing_hw1) failing"
  let ?later = "[tick_of (ok_response reviewing_hw1) delivering,
                 tick_of (ok_response reviewing_hw1) delivering]"
  have new: "hw1_message \<noteq> prev_msg start_state"
    using hw1_message_nonempty by (simp add: start_state_def)
  have stays: "\<forall>x \<in> set (derivations example_config ?later
                  (iteration example_config ?t start_state)). x = hw1_message"
    by (simp add: derived_hw1)
  have fails: "notifier ?t (TELEGRAM_CHAT_ID example_config) hw1_message = Some ''Timed out''"
    by (simp add: tick_of_def failing_def)
  from undelivered_message_not_retried [OF derived_hw1 new stays] fails
  show ?thesis
    by (simp add: start_state_def example_config_def)
qed

end
